theory Spec2Isabelle
  imports Main
begin

section \<open>The metadata index (server/src/db/index.ts)\<close>

text \<open>
  The index is one SQLite database with two tables. A table is modelled as the list of
  its rows in rowid order: an INSERT appends, a DELETE filters, an UPDATE maps, and a
  SELECT without ORDER BY reads the rows in list order (\<open>.get\<close> takes the first match,
  \<open>.all\<close> takes every match). A statement either takes effect or fails on a constraint
  of the schema; failures of the storage itself (a full disk, a locked file) are not
  modelled. JavaScript numbers are doubles; they are modelled as \<open>int\<close> (byte counts as
  \<open>nat\<close>), which agrees with the doubles as long as the values are integers below
  \<open>2^53\<close>, as sizes, offsets and timestamps are.
\<close>

datatype status = Pending | Active | Trashed

record file_row =
  f_id :: string
  f_name :: string
  f_size :: int
  f_type :: "string option"
  f_iv :: string
  f_salt :: string
  f_status :: status
  f_created_at :: int

record chunk_row =
  c_id :: nat
  c_file_id :: string
  c_idx :: int
  c_message_id :: string
  c_channel_id :: string
  c_size :: nat
  c_url :: "string option"

text \<open>
  \<open>chunk_seq\<close> is the AUTOINCREMENT counter of \<open>chunks.id\<close>. \<open>foreign_keys\<close> is the
  connection's \<open>PRAGMA foreign_keys\<close> setting: the schema declares
  \<open>FOREIGN KEY(file_id) REFERENCES files(id) ON DELETE CASCADE\<close>, and SQLite runs that
  action only on a connection where the pragma is on.
\<close>

record db =
  files :: "file_row list"
  chunks :: "chunk_row list"
  chunk_seq :: nat
  foreign_keys :: bool

text \<open>
  The connection as \<open>db/index.ts\<close> opens it: the only pragma it issues is
  \<open>journal_mode = WAL\<close>, so \<open>foreign_keys\<close> keeps SQLite's default, off.
\<close>

definition db_open :: db where
  "db_open = \<lparr>files = [], chunks = [], chunk_seq = 0, foreign_keys = False\<rparr>"

text \<open>\<open>SELECT ... FROM files WHERE id = ?\<close> with \<open>.get\<close>.\<close>

definition get_file :: "db \<Rightarrow> string \<Rightarrow> file_row option" where
  "get_file d fid = find (\<lambda>r. f_id r = fid) (files d)"

text \<open>\<open>SELECT 1 FROM files WHERE id = ? AND status = 'pending'\<close> with \<open>.get\<close>, read as a truth value.\<close>

definition pending_exists :: "db \<Rightarrow> string \<Rightarrow> bool" where
  "pending_exists d fid = (find (\<lambda>r. f_id r = fid \<and> f_status r = Pending) (files d) \<noteq> None)"

text \<open>
  \<open>DELETE FROM files WHERE P\<close>. With foreign keys enforced, the chunks of every deleted
  file go with it (ON DELETE CASCADE); without, the chunk table is not touched.
\<close>

definition delete_files :: "(file_row \<Rightarrow> bool) \<Rightarrow> db \<Rightarrow> db" where
  "delete_files P d =
     (let gone = map f_id (filter P (files d)) in
      d\<lparr>files := filter (\<lambda>r. \<not> P r) (files d),
        chunks := (if foreign_keys d
                   then filter (\<lambda>c. c_file_id c \<notin> set gone) (chunks d)
                   else chunks d)\<rparr>)"

text \<open>\<open>DELETE FROM chunks WHERE P\<close>.\<close>

definition delete_chunks :: "(chunk_row \<Rightarrow> bool) \<Rightarrow> db \<Rightarrow> db" where
  "delete_chunks P d = d\<lparr>chunks := filter (\<lambda>c. \<not> P c) (chunks d)\<rparr>"

text \<open>\<open>UPDATE files SET status = s WHERE id = ?\<close>.\<close>

definition set_status :: "string \<Rightarrow> status \<Rightarrow> db \<Rightarrow> db" where
  "set_status fid s d =
     d\<lparr>files := map (\<lambda>r. if f_id r = fid then r\<lparr>f_status := s\<rparr> else r) (files d)\<rparr>"

text \<open>
  \<open>INSERT INTO files (id, name, size, type, iv, salt, status)\<close>; \<open>created_at\<close> takes its
  default, the clock in seconds. \<open>id\<close> is the PRIMARY KEY: a second row with the same id
  is a constraint error (\<open>None\<close>), which the handler's \<open>catch\<close> turns into a 500.
\<close>

definition insert_file :: "file_row \<Rightarrow> db \<Rightarrow> db option" where
  "insert_file r d =
     (if f_id r \<in> set (map f_id (files d)) then None
      else Some (d\<lparr>files := files d @ [r]\<rparr>))"

text \<open>
  \<open>INSERT INTO chunks (file_id, idx, message_id, channel_id, size, url)\<close>. The table has
  no UNIQUE constraint on \<open>(file_id, idx)\<close>, so the insert itself never rejects a second
  row for one pair. With foreign keys enforced the parent file must exist.
\<close>

definition insert_chunk ::
  "string \<Rightarrow> int \<Rightarrow> string \<Rightarrow> string \<Rightarrow> nat \<Rightarrow> string option \<Rightarrow> db \<Rightarrow> db option" where
  "insert_chunk fid i mid ch sz u d =
     (if foreign_keys d \<and> get_file d fid = None then None
      else Some (d\<lparr>chunks := chunks d @
                   [\<lparr>c_id = Suc (chunk_seq d), c_file_id = fid, c_idx = i, c_message_id = mid,
                     c_channel_id = ch, c_size = sz, c_url = u\<rparr>],
                  chunk_seq := Suc (chunk_seq d)\<rparr>))"

text \<open>\<open>SELECT ... FROM chunks WHERE file_id = ?\<close> with \<open>.all\<close>.\<close>

definition chunks_of :: "db \<Rightarrow> string \<Rightarrow> chunk_row list" where
  "chunks_of d fid = filter (\<lambda>c. c_file_id c = fid) (chunks d)"

text \<open>The rows of one \<open>(file_id, idx)\<close> pair.\<close>

definition chunks_at :: "db \<Rightarrow> string \<Rightarrow> int \<Rightarrow> chunk_row list" where
  "chunks_at d fid i = filter (\<lambda>c. c_file_id c = fid \<and> c_idx c = i) (chunks d)"

section \<open>The server's world: the index and the background work it has started\<close>

text \<open>
  Handlers start background work and do not wait for it: \<open>bulkDeleteFromDiscord(ids)\<close>
  and \<open>backupDatabase()\<close>. The world records each start: \<open>bulk_deletes\<close> lists the
  arguments of the bulk-delete calls in call order, \<open>backups\<close> counts the backups.
  \<open>VACUUM\<close> changes no row and is not recorded. \<open>requests\<close> lists, in order, the
  requests the download and stream routes have sent to the chat service and its CDN.
\<close>

datatype request =
    Refresh_urls "string option list"
  | Get_message string
  | Fetch_url string "string option"

record world =
  database :: db
  bulk_deletes :: "string list list"
  backups :: nat
  requests :: "request list"

text \<open>
  \<open>bulkDeleteFromDiscord\<close> (lib/discord.ts): an empty list returns at once; any other
  list is handed to the chat service for deletion (one DELETE for a single id, batches
  of 100 otherwise).
\<close>

definition bulkDeleteFromDiscord :: "string list \<Rightarrow> world \<Rightarrow> world" where
  "bulkDeleteFromDiscord messageIds w =
     (if messageIds = [] then w else w\<lparr>bulk_deletes := bulk_deletes w @ [messageIds]\<rparr>)"

definition backupDatabase :: "world \<Rightarrow> world" where
  "backupDatabase w = w\<lparr>backups := Suc (backups w)\<rparr>"

text \<open>Every message id some bulk-delete call has named.\<close>

definition scheduled :: "world \<Rightarrow> string set" where
  "scheduled w = set (concat (bulk_deletes w))"

section \<open>Responses\<close>

datatype payload =
    No_data
  | Message_id string
  | Purged_count nat
  | Message string
  | Deleted_count string nat

text \<open>
  \<open>apiResponse.success(c, data)\<close> answers 200, \<open>apiResponse.error(c, message, status)\<close>
  answers \<open>status\<close> (lib/response.ts).
\<close>

datatype stream_end = Closed | Errored string

text \<open>
  \<open>c.text(message, status)\<close> is \<open>Text_response\<close>. \<open>new Response(body, {status, headers})\<close>
  is \<open>Http_response\<close>: the status, the headers in the order the source lists them, the
  pieces written to the body in write order, and how the body ended (closed, or aborted
  with an error).
\<close>

datatype response =
    Api_success payload
  | Api_error string nat
  | Text_response string nat
  | Http_response nat "(string \<times> string) list" "string list" stream_end

fun status_code :: "response \<Rightarrow> nat" where
  "status_code (Api_success _) = 200"
| "status_code (Api_error _ st) = st"
| "status_code (Text_response _ st) = st"
| "status_code (Http_response st _ _ _) = st"

text \<open>The value of a response header, and the bytes of the body.\<close>

fun header :: "string \<Rightarrow> response \<Rightarrow> string option" where
  "header name (Http_response _ hs _ _) = map_of hs name"
| "header name _ = None"

fun body :: "response \<Rightarrow> string" where
  "body (Http_response _ _ pieces _) = concat pieces"
| "body (Text_response msg _) = msg"
| "body _ = []"

section \<open>The upload engine (server/src/routes/upload.ts)\<close>

subsection \<open>Init\<close>

text \<open>
  The request body, \<open>Partial<FileMetadata>\<close>: every field may be missing (\<open>None\<close>); a
  field that is present has the type the source declares for it.
\<close>

record file_meta =
  m_id :: "string option"
  m_name :: "string option"
  m_size :: "int option"
  m_type :: "string option"
  m_iv :: "string option"
  m_salt :: "string option"

text \<open>\<open>x || dflt\<close> on an optional string: a missing or empty string is falsy.\<close>

fun or_else :: "string option \<Rightarrow> string \<Rightarrow> string" where
  "or_else None dflt = dflt"
| "or_else (Some s) dflt = (if s = [] then dflt else s)"

text \<open>
  \<open>POST /file/init\<close>. \<open>now\<close> is the clock in seconds, the default of \<open>created_at\<close>.
  The DELETE and the INSERT are two statements, not one transaction.
\<close>

definition pending_row :: "int \<Rightarrow> string \<Rightarrow> string \<Rightarrow> int \<Rightarrow> file_meta \<Rightarrow> file_row" where
  "pending_row now fid name sz meta =
     \<lparr>f_id = fid, f_name = name, f_size = sz,
      f_type = Some (or_else (m_type meta) ''application/octet-stream''),
      f_iv = or_else (m_iv meta) [], f_salt = or_else (m_salt meta) [],
      f_status = Pending, f_created_at = now\<rparr>"

definition init_insert :: "file_row \<Rightarrow> db \<Rightarrow> world \<Rightarrow> response \<times> world" where
  "init_insert row d w =
     (case insert_file row d of
        Some d' \<Rightarrow> (Api_success No_data, w\<lparr>database := d'\<rparr>)
      | None \<Rightarrow> (Api_error ''Failed to initialize file record'' 500, w\<lparr>database := d\<rparr>))"

definition upload_init :: "int \<Rightarrow> file_meta \<Rightarrow> world \<Rightarrow> response \<times> world" where
  "upload_init now meta w =
     (case (m_id meta, m_name meta, m_size meta) of
        (Some fid, Some name, Some sz) \<Rightarrow>
          if fid = [] \<or> name = [] then (Api_error ''Missing file metadata'' 400, w)
          else (case get_file (database w) fid of
                  Some existing \<Rightarrow>
                    if f_status existing = Active
                    then (Api_error ''File ID already exists and is active'' 409, w)
                    else init_insert (pending_row now fid name sz meta)
                           (delete_files (\<lambda>r. f_id r = fid) (database w)) w
                | None \<Rightarrow> init_insert (pending_row now fid name sz meta) (database w) w)
      | _ \<Rightarrow> (Api_error ''Missing file metadata'' 400, w))"

subsection \<open>Chunk upload\<close>

text \<open>
  \<open>uploadToDiscord\<close> either throws or returns the attachment: the id of the message
  that carries the blob, and its CDN URL.
\<close>

record attachment =
  a_id :: string
  a_url :: string

datatype upload_outcome = Upload_failed | Uploaded attachment

text \<open>
  \<open>POST /file/:id/chunk\<close>, from the point where the chunk index has been resolved and the
  body read (lines 52 to 118). The handler runs in two synchronous parts around
  \<open>await uploadToDiscord\<close>. It also yields at its two \<open>await import\<close>, each just before
  a bulk delete is started: the first between the DELETE of the old rows and the upload,
  the second after the recheck has failed. The handler neither reads nor writes the index
  between the first and the upload, or after the second, so what is served at these
  yields can be moved into the wait for the upload, or behind the handler, with no change
  to the index; the two yields are not modelled apart.

  Before the upload: an empty body is a 400; a file that is not pending is a 404; an
  existing row of \<open>(fileId, chunkIndex)\<close> (the first one, \<open>.get\<close>) has every row of the pair
  deleted and its message handed to bulk delete.
\<close>

definition chunk_before_upload :: "string \<Rightarrow> int \<Rightarrow> string \<Rightarrow> world \<Rightarrow> response + world" where
  "chunk_before_upload fileId chunkIndex buffer w =
     (if buffer = [] then Inl (Api_error ''Empty chunk'' 400)
      else if \<not> pending_exists (database w) fileId
      then Inl (Api_error ''Upload session invalid or aborted'' 404)
      else (case find (\<lambda>c. c_file_id c = fileId \<and> c_idx c = chunkIndex) (chunks (database w)) of
              None \<Rightarrow> Inr w
            | Some existingChunk \<Rightarrow>
                Inr (bulkDeleteFromDiscord [c_message_id existingChunk]
                       (w\<lparr>database :=
                            delete_chunks (\<lambda>c. c_file_id c = fileId \<and> c_idx c = chunkIndex)
                              (database w)\<rparr>))))"

text \<open>
  After the upload has returned \<open>att\<close>: the pending row is looked up again. Without it the
  new message is handed to bulk delete and the answer is 404; with it the chunk row is
  inserted. \<open>channel\<close> is \<open>process.env.DISCORD_CHANNEL_ID || ""\<close>.
\<close>

definition chunk_after_upload ::
  "string \<Rightarrow> string \<Rightarrow> int \<Rightarrow> string \<Rightarrow> attachment \<Rightarrow> world \<Rightarrow> response \<times> world" where
  "chunk_after_upload channel fileId chunkIndex buffer att w =
     (if \<not> pending_exists (database w) fileId
      then (Api_error ''Upload aborted during transfer'' 404, bulkDeleteFromDiscord [a_id att] w)
      else (case insert_chunk fileId chunkIndex (a_id att) channel (length buffer)
                   (Some (a_url att)) (database w) of
              Some d \<Rightarrow> (Api_success (Message_id (a_id att)), w\<lparr>database := d\<rparr>)
            | None \<Rightarrow> (Api_error ''Failed to upload chunk to storage'' 500, w)))"

text \<open>
  The whole handler. \<open>outcome\<close> is what \<open>uploadToDiscord\<close> does; \<open>during\<close> is what the
  requests served while this one waits for the upload do to the world (the identity
  when the call runs alone).
\<close>

definition upload_chunk ::
  "string \<Rightarrow> string \<Rightarrow> int \<Rightarrow> string \<Rightarrow> upload_outcome \<Rightarrow> (world \<Rightarrow> world) \<Rightarrow> world
     \<Rightarrow> response \<times> world" where
  "upload_chunk channel fileId chunkIndex buffer outcome during w =
     (case chunk_before_upload fileId chunkIndex buffer w of
        Inl resp \<Rightarrow> (resp, w)
      | Inr w1 \<Rightarrow>
          (case outcome of
             Upload_failed \<Rightarrow> (Api_error ''Failed to upload chunk to storage'' 500, during w1)
           | Uploaded att \<Rightarrow> chunk_after_upload channel fileId chunkIndex buffer att (during w1)))"

subsection \<open>Finalize, Abort, Bulk-Purge-Pending\<close>

text \<open>\<open>POST /file/:id/finalize\<close>; \<open>skipBackup\<close> is \<open>skip_backup === "true"\<close>.\<close>

definition upload_finalize :: "string \<Rightarrow> bool \<Rightarrow> world \<Rightarrow> response \<times> world" where
  "upload_finalize fileId skipBackup w =
     (let w1 = w\<lparr>database := set_status fileId Active (database w)\<rparr>
      in (Api_success No_data, if skipBackup then w1 else backupDatabase w1))"

text \<open>\<open>POST /file/:id/abort\<close>.\<close>

definition upload_abort :: "string \<Rightarrow> world \<Rightarrow> response \<times> world" where
  "upload_abort fileId w =
     (let messageIds = map c_message_id (chunks_of (database w) fileId);
          w1 = w\<lparr>database :=
                    delete_files (\<lambda>r. f_id r = fileId \<and> f_status r = Pending) (database w)\<rparr>
      in (Api_success No_data,
          if messageIds \<noteq> [] then bulkDeleteFromDiscord messageIds w1 else w1))"

text \<open>\<open>DELETE /file/pending/all\<close>.\<close>

definition pending_ids :: "db \<Rightarrow> string list" where
  "pending_ids d = map f_id (filter (\<lambda>r. f_status r = Pending) (files d))"

definition upload_purge_pending :: "world \<Rightarrow> response \<times> world" where
  "upload_purge_pending w =
     (let d = database w;
          messageIds = map c_message_id
                         (filter (\<lambda>c. c_file_id c \<in> set (pending_ids d)) (chunks d));
          d1 = delete_chunks (\<lambda>c. c_file_id c \<in> set (pending_ids d)) d;
          d2 = delete_files (\<lambda>r. f_status r = Pending) d1;
          w1 = w\<lparr>database := d2\<rparr>
      in (Api_success (Purged_count (length messageIds)),
          if messageIds \<noteq> [] then bulkDeleteFromDiscord messageIds w1 else w1))"

section \<open>The file routes (server/src/routes/files.ts)\<close>

text \<open>\<open>POST /:id/restore\<close>.\<close>

definition files_restore :: "string \<Rightarrow> world \<Rightarrow> response \<times> world" where
  "files_restore fid w =
     (case get_file (database w) fid of
        None \<Rightarrow> (Api_error ''File not found'' 404, w)
      | Some file \<Rightarrow>
          if f_status file \<noteq> Trashed then (Api_error ''File is not in trash'' 400, w)
          else (Api_success (Message ''File restored''),
                backupDatabase (w\<lparr>database := set_status fid Active (database w)\<rparr>)))"

text \<open>
  \<open>DELETE /trash\<close>: the files are deleted first, then the chunks of the collected ids,
  by a statement of their own.
\<close>

definition trashed_ids :: "db \<Rightarrow> string list" where
  "trashed_ids d = map f_id (filter (\<lambda>r. f_status r = Trashed) (files d))"

definition files_empty_trash :: "world \<Rightarrow> response \<times> world" where
  "files_empty_trash w =
     (let d = database w; ids = trashed_ids d in
      if ids = [] then (Api_success (Deleted_count ''Trash is already empty'' 0), w)
      else
        let messageIds = map c_message_id
                           (filter (\<lambda>c. c_file_id c \<in> set ids) (chunks d));
            d1 = delete_files (\<lambda>r. f_id r \<in> set ids) d;
            d2 = delete_chunks (\<lambda>c. c_file_id c \<in> set ids) d1
        in (Api_success (Deleted_count ''Trash emptied'' (length ids)),
            backupDatabase (bulkDeleteFromDiscord messageIds (w\<lparr>database := d2\<rparr>))))"

text \<open>
  \<open>DELETE /:id\<close>: an active file is moved to the trash; a file in any other status is
  deleted for good, and its chunks' messages are handed to bulk delete.
\<close>

definition files_delete :: "string \<Rightarrow> world \<Rightarrow> response \<times> world" where
  "files_delete fid w =
     (case get_file (database w) fid of
        None \<Rightarrow> (Api_error ''File not found'' 404, w)
      | Some file \<Rightarrow>
          if f_status file = Active
          then (Api_success (Message ''File moved to trash''),
                backupDatabase (w\<lparr>database := set_status fid Trashed (database w)\<rparr>))
          else
            let messageIds = map c_message_id (chunks_of (database w) fid);
                w1 = w\<lparr>database := delete_files (\<lambda>r. f_id r = fid) (database w)\<rparr>
            in (Api_success (Message ''File permanently deleted''),
                backupDatabase (bulkDeleteFromDiscord messageIds w1)))"

section \<open>Sample data\<close>

text \<open>The file of the spec's first scenario, in a given status, and a chunk of it.\<close>

definition sample_file :: "status \<Rightarrow> file_row" where
  "sample_file st =
     \<lparr>f_id = ''a'', f_name = ''t.txt'', f_size = 13, f_type = Some ''text/plain'',
      f_iv = [], f_salt = [], f_status = st, f_created_at = 0\<rparr>"

definition sample_meta :: file_meta where
  "sample_meta =
     \<lparr>m_id = Some ''a'', m_name = Some ''t.txt'', m_size = Some 13, m_type = Some ''text/plain'',
      m_iv = None, m_salt = None\<rparr>"

definition sample_chunk :: "nat \<Rightarrow> int \<Rightarrow> string \<Rightarrow> nat \<Rightarrow> chunk_row" where
  "sample_chunk rowid i mid sz =
     \<lparr>c_id = rowid, c_file_id = ''a'', c_idx = i, c_message_id = mid, c_channel_id = ''ch'',
      c_size = sz, c_url = Some ''https://cdn.example/c.bin?ex=ffffffff''\<rparr>"

definition sample_world :: "file_row list \<Rightarrow> chunk_row list \<Rightarrow> world" where
  "sample_world fs cs =
     \<lparr>database = \<lparr>files = fs, chunks = cs, chunk_seq = length cs, foreign_keys = False\<rparr>,
      bulk_deletes = [], backups = 0, requests = []\<rparr>"

section \<open>Sequential chunk uploads\<close>

text \<open>
  A run of Chunk-Upload calls at one \<open>(fileId, chunkIndex)\<close>, one after the other with
  nothing in between, each external upload returning its attachment. The result lists
  the response and the world after every call.
\<close>

fun upload_chunk_seq ::
  "string \<Rightarrow> string \<Rightarrow> int \<Rightarrow> (string \<times> attachment) list \<Rightarrow> world \<Rightarrow> (response \<times> world) list" where
  "upload_chunk_seq channel fileId chunkIndex [] w = []"
| "upload_chunk_seq channel fileId chunkIndex ((buffer, att) # calls) w =
     (let rw = upload_chunk channel fileId chunkIndex buffer (Uploaded att) (\<lambda>w. w) w
      in rw # upload_chunk_seq channel fileId chunkIndex calls (snd rw))"

text \<open>No two rows of the chunk table share \<open>(file_id, idx)\<close>.\<close>

definition unique_idx :: "db \<Rightarrow> bool" where
  "unique_idx d = distinct (map (\<lambda>c. (c_file_id c, c_idx c)) (chunks d))"

text \<open>The row a successful Chunk-Upload stores.\<close>

definition new_chunk :: "string \<Rightarrow> string \<Rightarrow> int \<Rightarrow> string \<Rightarrow> attachment \<Rightarrow> db \<Rightarrow> chunk_row" where
  "new_chunk channel fid i b att d =
     \<lparr>c_id = Suc (chunk_seq d), c_file_id = fid, c_idx = i, c_message_id = a_id att,
      c_channel_id = channel, c_size = length b, c_url = Some (a_url att)\<rparr>"

text \<open>Three uploads of chunk 0 of the sample file, with bodies of 14, 2 and 5 bytes.\<close>

definition sample_calls :: "(string \<times> attachment) list" where
  "sample_calls =
     [(''Hello Jenkins!'', \<lparr>a_id = ''m1'', a_url = ''u1''\<rparr>),
      (''Hi'', \<lparr>a_id = ''m2'', a_url = ''u2''\<rparr>),
      (''Bye!!'', \<lparr>a_id = ''m3'', a_url = ''u3''\<rparr>)]"

text \<open>A fresh server: the index as \<open>db_open\<close> leaves it, no background work started.\<close>

definition fresh_world :: world where
  "fresh_world = \<lparr>database = db_open, bulk_deletes = [], backups = 0, requests = []\<rparr>"

section \<open>JavaScript values\<close>

text \<open>
  Strings are byte strings: the headers, URLs and query parameters the modelled code
  reads are ASCII. A JavaScript number that may be \<open>NaN\<close> is an \<open>int option\<close>, with
  \<open>None\<close> for \<open>NaN\<close>; a comparison with \<open>NaN\<close> is false.
\<close>

fun js_lt :: "int option \<Rightarrow> int option \<Rightarrow> bool" where
  "js_lt (Some a) (Some b) = (a < b)"
| "js_lt _ _ = False"

text \<open>A string value is truthy when it is present and not empty.\<close>

fun truthy :: "string option \<Rightarrow> bool" where
  "truthy None = False"
| "truthy (Some s) = (s \<noteq> [])"

text \<open>
  \<open>parseInt(str, radix)\<close> for a radix from 2 to 36: leading white space is skipped, one
  sign is read, for radix 16 a \<open>0x\<close> prefix is skipped, and the longest run of digits of
  the radix is the value; no digit at all gives \<open>NaN\<close>.
\<close>

definition is_ws :: "char \<Rightarrow> bool" where
  "is_ws c = (c \<in> set [CHR 0x09, CHR 0x0A, CHR 0x0B, CHR 0x0C, CHR 0x0D, CHR '' ''])"

definition digit_val :: "char \<Rightarrow> nat option" where
  "digit_val c =
     (let n = of_char c :: nat in
      if 48 \<le> n \<and> n \<le> 57 then Some (n - 48)
      else if 97 \<le> n \<and> n \<le> 122 then Some (n - 87)
      else if 65 \<le> n \<and> n \<le> 90 then Some (n - 55)
      else None)"

definition is_digit :: "nat \<Rightarrow> char \<Rightarrow> bool" where
  "is_digit radix c = (case digit_val c of Some v \<Rightarrow> v < radix | None \<Rightarrow> False)"

definition digits_value :: "nat \<Rightarrow> string \<Rightarrow> nat" where
  "digits_value radix ds =
     foldl (\<lambda>acc c. acc * radix + (case digit_val c of Some v \<Rightarrow> v | None \<Rightarrow> 0)) 0 ds"

definition parseInt :: "string \<Rightarrow> nat \<Rightarrow> int option" where
  "parseInt str radix =
     (let s = dropWhile is_ws str;
          s1 = (if take 1 s = ''-'' \<or> take 1 s = ''+'' then drop 1 s else s);
          s2 = (if radix = 16 \<and> (take 2 s1 = ''0x'' \<or> take 2 s1 = ''0X'') then drop 2 s1 else s1);
          ds = takeWhile (is_digit radix) s2
      in if ds = [] then None
         else Some (if take 1 s = ''-'' then - int (digits_value radix ds)
                    else int (digits_value radix ds)))"

text \<open>Number to string: decimal digits, a minus sign for a negative number, \<open>NaN\<close>.\<close>

fun dec :: "nat \<Rightarrow> string" where
  "dec n = (if n < 10 then [''0123456789'' ! n]
            else dec (n div 10) @ [''0123456789'' ! (n mod 10)])"

declare dec.simps [simp del]

definition int_str :: "int \<Rightarrow> string" where
  "int_str i = (if i < 0 then CHR ''-'' # dec (nat (- i)) else dec (nat i))"

fun num_str :: "int option \<Rightarrow> string" where
  "num_str None = ''NaN''"
| "num_str (Some i) = int_str i"

text \<open>\<open>s.includes(sub)\<close>.\<close>

fun str_includes :: "string \<Rightarrow> string \<Rightarrow> bool" where
  "str_includes [] sub = (sub = [])"
| "str_includes (c # cs) sub = (take (length sub) (c # cs) = sub \<or> str_includes cs sub)"

text \<open>\<open>s.replace(/pat/, "")\<close> for a literal pattern: the first occurrence is removed.\<close>

fun remove_first :: "string \<Rightarrow> string \<Rightarrow> string" where
  "remove_first pat [] = []"
| "remove_first pat (c # cs) =
     (if take (length pat) (c # cs) = pat then drop (length pat) (c # cs)
      else c # remove_first pat cs)"

text \<open>\<open>s.split(d)\<close> for a one-character separator; the result is never empty.\<close>

fun split_on :: "char \<Rightarrow> string \<Rightarrow> string list" where
  "split_on d [] = [[]]"
| "split_on d (c # cs) =
     (if c = d then [] # split_on d cs
      else (case split_on d cs of p # ps \<Rightarrow> (c # p) # ps | [] \<Rightarrow> [[c]]))"

text \<open>
  \<open>encodeURIComponent\<close>: every byte but letters, digits and \<open>- _ . ! ~ * ' ( )\<close> becomes
  \<open>%XX\<close>.
\<close>

definition unreserved :: "char \<Rightarrow> bool" where
  "unreserved c =
     (let n = of_char c :: nat in
      (48 \<le> n \<and> n \<le> 57) \<or> (65 \<le> n \<and> n \<le> 90) \<or> (97 \<le> n \<and> n \<le> 122) \<or>
      c \<in> set [CHR ''-'', CHR ''_'', CHR ''.'', CHR ''!'', CHR ''~'', CHR ''*'', CHR 0x27,
                 CHR ''('', CHR '')''])"

definition encodeURIComponent :: "string \<Rightarrow> string" where
  "encodeURIComponent s =
     concat (map (\<lambda>c. if unreserved c then [c]
                       else [CHR ''%'', ''0123456789ABCDEF'' ! ((of_char c :: nat) div 16),
                             ''0123456789ABCDEF'' ! ((of_char c :: nat) mod 16)]) s)"

text \<open>
  \<open>new URL(u).searchParams.get(name)\<close>. The outer \<open>None\<close> is the TypeError of \<open>new URL\<close>,
  raised here for a string that does not start with a scheme (a letter, then letters,
  digits, \<open>+\<close>, \<open>-\<close> or \<open>.\<close>, then a colon); the platform rejects some more strings
  (a bad host or port), which this model parses. The query runs from the first \<open>?\<close> to
  the first \<open>#\<close>; its \<open>&\<close>-separated pairs are split at their first \<open>=\<close>, a \<open>+\<close> is read
  as a space, and the first pair of the name gives the value. Percent escapes are left as
  they are: the hexadecimal timestamps read here have none.
\<close>

definition is_alpha :: "char \<Rightarrow> bool" where
  "is_alpha c = (let n = of_char c :: nat in (65 \<le> n \<and> n \<le> 90) \<or> (97 \<le> n \<and> n \<le> 122))"

definition scheme_char :: "char \<Rightarrow> bool" where
  "scheme_char c =
     (let n = of_char c :: nat in
      is_alpha c \<or> (48 \<le> n \<and> n \<le> 57) \<or> c \<in> set [CHR ''+'', CHR ''-'', CHR ''.''])"

definition has_scheme :: "string \<Rightarrow> bool" where
  "has_scheme u =
     (case u of
        [] \<Rightarrow> False
      | c # cs \<Rightarrow> is_alpha c \<and> take 1 (dropWhile scheme_char cs) = '':'')"

definition url_query :: "string \<Rightarrow> string" where
  "url_query u = drop 1 (dropWhile (\<lambda>c. c \<noteq> CHR ''?'') (takeWhile (\<lambda>c. c \<noteq> CHR ''#'') u))"

definition query_pair :: "string \<Rightarrow> string \<times> string" where
  "query_pair p =
     (map (\<lambda>c. if c = CHR ''+'' then CHR '' '' else c) (takeWhile (\<lambda>c. c \<noteq> CHR ''='') p),
      map (\<lambda>c. if c = CHR ''+'' then CHR '' '' else c) (drop 1 (dropWhile (\<lambda>c. c \<noteq> CHR ''='') p)))"

definition search_get :: "string \<Rightarrow> string \<Rightarrow> string option option" where
  "search_get u name =
     (if has_scheme u
      then Some (map_of (map query_pair (filter (\<lambda>p. p \<noteq> []) (split_on CHR ''&'' (url_query u)))) name)
      else None)"

section \<open>The chat service and its CDN\<close>

text \<open>
  What the service answers is not the server's to decide. An environment gives the reply
  to each request as a function of the requests sent before it, so that two requests of
  the same content may be answered differently. It also gives the clock (\<open>Date.now()\<close>,
  in milliseconds) at each point of that history, the value of
  \<open>DISCORD_BACKUP_CHANNEL_ID\<close>, and what the client's abort signal reads at each point
  where the code tests it.
\<close>

datatype reply =
    Throws string
  | Refreshed "string list"
  | Attachment_url string
  | Http nat string

datatype point =
    Fetch_entry int
  | Attempt_fetch int nat
  | Attempt_caught int nat
  | Loop_top nat
  | Before_write nat

record env =
  answer :: "request list \<Rightarrow> request \<Rightarrow> reply"
  clock :: "request list \<Rightarrow> int"
  backup_channel :: "string option"
  aborted :: "point \<Rightarrow> bool"

definition send :: "env \<Rightarrow> request \<Rightarrow> world \<Rightarrow> reply \<times> world" where
  "send e rq w = (answer e (requests w) rq, w\<lparr>requests := requests w @ [rq]\<rparr>)"

text \<open>
  \<open>refreshDiscordUrls\<close> (lib/discord.ts): no request for an empty list; a reply that is
  not a list of refreshed URLs is an error thrown (\<open>None\<close>).
\<close>

definition refreshDiscordUrls :: "env \<Rightarrow> string option list \<Rightarrow> world \<Rightarrow> string list option \<times> world" where
  "refreshDiscordUrls e urls w =
     (if urls = [] then (Some [], w)
      else (case send e (Refresh_urls urls) w of
              (Refreshed rs, w') \<Rightarrow> (Some rs, w')
            | (_, w') \<Rightarrow> (None, w')))"

text \<open>\<open>getDiscordCDNUrl\<close> (lib/discord.ts): the attachment URL of a message, or an error thrown.\<close>

definition getDiscordCDNUrl :: "env \<Rightarrow> string \<Rightarrow> world \<Rightarrow> string option \<times> world" where
  "getDiscordCDNUrl e messageId w =
     (case send e (Get_message messageId) w of
        (Attachment_url u, w') \<Rightarrow> (Some u, w')
      | (_, w') \<Rightarrow> (None, w'))"

text \<open>
  \<open>fetch(url, {headers: {Range}})\<close> followed by the read of the body. An undefined URL
  throws before any request is sent; a reply that is not an HTTP response is an error
  thrown. Any string is handed to the environment, which answers \<open>Throws\<close> where the
  platform rejects the string as a URL.
\<close>

datatype fetched = Fetch_throws string | Fetch_response nat string

definition fetch :: "env \<Rightarrow> string option \<Rightarrow> string option \<Rightarrow> world \<Rightarrow> fetched \<times> world" where
  "fetch e url rangeHdr w =
     (case url of
        None \<Rightarrow> (Fetch_throws ''fetch() URL is invalid'', w)
      | Some u \<Rightarrow>
          (case send e (Fetch_url u rangeHdr) w of
             (Http st b, w') \<Rightarrow> (Fetch_response st b, w')
           | (Throws msg, w') \<Rightarrow> (Fetch_throws msg, w')
           | (_, w') \<Rightarrow> (Fetch_throws ''fetch failed'', w')))"

text \<open>\<open>response.ok\<close>.\<close>

definition ok :: "nat \<Rightarrow> bool" where
  "ok st = (200 \<le> st \<and> st \<le> 299)"

text \<open>\<open>UPDATE chunks SET url = ? WHERE message_id = ?\<close>.\<close>

definition update_url :: "string option \<Rightarrow> string \<Rightarrow> world \<Rightarrow> world" where
  "update_url u messageId w =
     w\<lparr>database := (database w)\<lparr>chunks :=
          map (\<lambda>c. if c_message_id c = messageId then c\<lparr>c_url := u\<rparr> else c)
            (chunks (database w))\<rparr>\<rparr>"

text \<open>
  \<open>SELECT idx, size, url, message_id FROM chunks WHERE file_id = ? ORDER BY idx ASC\<close>.
  SQL leaves the order of rows with equal idx open; the model keeps them in rowid order.
\<close>

definition getChunks :: "db \<Rightarrow> string \<Rightarrow> chunk_row list" where
  "getChunks d fid = sort_key c_idx (chunks_of d fid)"

section \<open>The range stream engine (server/src/routes/stream.ts)\<close>

text \<open>
  The Range header: \<open>bytes=\<close> is removed, the rest is split at \<open>-\<close>, the first part is the
  start and the second, when it is not empty, the end. Without a header the range is the
  whole file.
\<close>

definition parse_range :: "int \<Rightarrow> string option \<Rightarrow> int option \<times> int option" where
  "parse_range fileSize rangeHeader =
     (if truthy rangeHeader
      then (case split_on CHR ''-'' (remove_first ''bytes='' (case rangeHeader of Some h \<Rightarrow> h | None \<Rightarrow> [])) of
              [] \<Rightarrow> (None, Some (fileSize - 1))
            | p0 # ps \<Rightarrow>
                (parseInt p0 10,
                 (case ps of p1 # _ \<Rightarrow> if p1 \<noteq> [] then parseInt p1 10 else Some (fileSize - 1)
                           | [] \<Rightarrow> Some (fileSize - 1))))
      else (Some 0, Some (fileSize - 1)))"

text \<open>
  The walk over the chunks in idx order with the running offset: the first chunk with
  \<open>currentOffset \<le> start < currentOffset + size\<close>, and its offset.
\<close>

fun find_chunk :: "int \<Rightarrow> int \<Rightarrow> chunk_row list \<Rightarrow> (chunk_row \<times> int) option" where
  "find_chunk start currentOffset [] = None"
| "find_chunk start currentOffset (chunk # rest) =
     (if start \<ge> currentOffset \<and> start < currentOffset + int (c_size chunk)
      then Some (chunk, currentOffset)
      else find_chunk start (currentOffset + int (c_size chunk)) rest)"

text \<open>
  \<open>isExpired\<close> of the stream route, at clock \<open>now\<close> (milliseconds): no URL, a URL that
  does not parse, no \<open>ex\<close> parameter, or an \<open>ex\<close> that, read as a hexadecimal number of
  seconds, is less than five minutes ahead.
\<close>

definition isExpired :: "int \<Rightarrow> string option \<Rightarrow> bool" where
  "isExpired now url =
     (case url of
        None \<Rightarrow> True
      | Some u \<Rightarrow>
          if u = [] then True
          else (case search_get u ''ex'' of
                  None \<Rightarrow> True
                | Some ex \<Rightarrow>
                    if \<not> truthy ex then True
                    else js_lt (parseInt (case ex of Some x \<Rightarrow> x | None \<Rightarrow> []) 16)
                           (Some (now div 1000 + 300))))"

text \<open>
  Step 5 of the handler, the refresh of the target chunk's URL, in the source's three
  parts. First the bulk refresh, tried when there is a URL; an error it throws is
  swallowed.
\<close>

definition stream_bulk_refresh :: "env \<Rightarrow> string option \<Rightarrow> world \<Rightarrow> string option \<times> world" where
  "stream_bulk_refresh e cdnUrl w =
     (if truthy cdnUrl
      then (case refreshDiscordUrls e [cdnUrl] w of
              (Some (r # _), w1) \<Rightarrow> (if r \<noteq> [] then Some r else cdnUrl, w1)
            | (_, w1) \<Rightarrow> (cdnUrl, w1))
      else (cdnUrl, w))"

text \<open>
  Last the lookup on the backup channel, reached when the lookup on the primary channel
  throws: it runs if a backup channel is configured, and only a non-empty result is
  written to the chunk row.
\<close>

definition stream_backup_lookup ::
  "env \<Rightarrow> string \<Rightarrow> string option \<Rightarrow> world \<Rightarrow> string option \<times> world" where
  "stream_backup_lookup e messageId cdnUrl w =
     (if truthy (backup_channel e)
      then (case getDiscordCDNUrl e messageId w of
              (Some u, w') \<Rightarrow> (Some u, if u \<noteq> [] then update_url (Some u) messageId w' else w')
            | (None, w') \<Rightarrow> (cdnUrl, w'))
      else (cdnUrl, w))"

text \<open>
  The whole step: nothing happens unless the stored URL is expired and the chunk has a
  message id. After the bulk refresh, a message lookup follows when the URL is still
  missing or expired; the URL in hand is then written to the chunk row.
\<close>

definition stream_refresh :: "env \<Rightarrow> chunk_row \<Rightarrow> world \<Rightarrow> string option \<times> world" where
  "stream_refresh e targetChunk w =
     (let cdnUrl = c_url targetChunk in
      if isExpired (clock e (requests w)) cdnUrl \<and> c_message_id targetChunk \<noteq> []
      then
        (case stream_bulk_refresh e cdnUrl w of
           (url1, w1) \<Rightarrow>
             if \<not> truthy url1 \<or> isExpired (clock e (requests w1)) url1
             then (case getDiscordCDNUrl e (c_message_id targetChunk) w1 of
                     (Some u, w2) \<Rightarrow> (Some u, update_url (Some u) (c_message_id targetChunk) w2)
                   | (None, w2) \<Rightarrow> stream_backup_lookup e (c_message_id targetChunk) url1 w2)
             else (url1, update_url url1 (c_message_id targetChunk) w1))
      else (cdnUrl, w))"

text \<open>\<open>GET /file/:id\<close> of the stream route.\<close>

definition stream_file :: "env \<Rightarrow> string \<Rightarrow> string option \<Rightarrow> world \<Rightarrow> response \<times> world" where
  "stream_file e fileId rangeHeader w =
     (case get_file (database w) fileId of
        None \<Rightarrow> (Text_response ''File not found'' 404, w)
      | Some file \<Rightarrow>
          (case parse_range (f_size file) rangeHeader of
             (None, _) \<Rightarrow> (Text_response ''Range Not Satisfiable'' 416, w)
           | (Some start, rangeEnd) \<Rightarrow>
               (case find_chunk start 0 (getChunks (database w) fileId) of
                  None \<Rightarrow> (Text_response ''Range Not Satisfiable'' 416, w)
                | Some (targetChunk, chunkStartOffset) \<Rightarrow>
                    let localStart = start - chunkStartOffset;
                        localAvailable = int (c_size targetChunk) - localStart;
                        requestSize = map_option (\<lambda>x. x - start + 1) rangeEnd;
                        actualLength = map_option (\<lambda>r. min r localAvailable) requestSize;
                        localEnd = map_option (\<lambda>a. localStart + a - 1) actualLength;
                        globalEnd = map_option (\<lambda>a. start + a - 1) actualLength
                    in (case stream_refresh e targetChunk w of
                          (cdnUrl, w1) \<Rightarrow>
                            (case fetch e cdnUrl
                                    (Some (''bytes='' @ int_str localStart @ ''-'' @ num_str localEnd)) w1 of
                               (Fetch_throws msg, w2) \<Rightarrow>
                                 (Text_response ''Internal Server Error'' 500, w2)
                             | (Fetch_response st b, w2) \<Rightarrow>
                                 if \<not> ok st \<and> st \<noteq> 206
                                 then (Text_response ''Upstream Error'' 502, w2)
                                 else (Http_response 206
                                         [(''Content-Range'',
                                           ''bytes '' @ int_str start @ ''-'' @ num_str globalEnd
                                             @ ''/'' @ int_str (f_size file)),
                                          (''Accept-Ranges'', ''bytes''),
                                          (''Content-Length'', num_str actualLength),
                                          (''Content-Type'',
                                           or_else (f_type file) ''application/octet-stream'')]
                                         [b] Closed, w2))))))"

text \<open>
  The global offset of the first byte of the chunk at position \<open>k\<close> of a chunk list: the
  total size of the chunks before it.
\<close>

definition chunk_start :: "chunk_row list \<Rightarrow> nat \<Rightarrow> int" where
  "chunk_start cs k = sum_list (map (\<lambda>c. int (c_size c)) (take k cs))"


section \<open>The download engine (server/src/routes/download.ts)\<close>

text \<open>
  The expiry test of both download paths, at clock \<open>now\<close> (milliseconds):
  \<open>!cdnUrl || (cdnUrl.includes("ex=") && parseInt(new URL(cdnUrl).searchParams.get("ex") || "0", 16) < Date.now() / 1000)\<close>.
  The result is \<open>None\<close> when \<open>new URL\<close> throws. The timestamp \<open>t\<close> is below
  \<open>now / 1000\<close> exactly when \<open>t * 1000 < now\<close>.
\<close>

definition download_isExpired :: "int \<Rightarrow> string option \<Rightarrow> bool option" where
  "download_isExpired now cdnUrl =
     (case cdnUrl of
        None \<Rightarrow> Some True
      | Some u \<Rightarrow>
          if u = [] then Some True
          else if str_includes u ''ex=''
          then (case search_get u ''ex'' of
                  None \<Rightarrow> None
                | Some ex \<Rightarrow>
                    Some (case parseInt (or_else ex ''0'') 16 of
                            None \<Rightarrow> False
                          | Some t \<Rightarrow> t * 1000 < now))
          else Some False)"

text \<open>
  The refresh block of both download paths: the bulk refresh; when it gives nothing and
  the chunk has a message id, the message lookup; a non-empty URL in hand is written to
  the chunk row. An error thrown by either request is caught and leaves the URL as it
  was.
\<close>

definition download_refresh :: "env \<Rightarrow> chunk_row \<Rightarrow> string option \<Rightarrow> world \<Rightarrow> string option \<times> world" where
  "download_refresh e chunk cdnUrl w =
     (case refreshDiscordUrls e [cdnUrl] w of
        (None, w1) \<Rightarrow> (cdnUrl, w1)
      | (Some refreshed, w1) \<Rightarrow>
          (case (case refreshed of r # _ \<Rightarrow> if r \<noteq> [] then Some r else None | [] \<Rightarrow> None) of
             Some r \<Rightarrow> (Some r, update_url (Some r) (c_message_id chunk) w1)
           | None \<Rightarrow>
               if c_message_id chunk \<noteq> []
               then (case getDiscordCDNUrl e (c_message_id chunk) w1 of
                       (Some u, w2) \<Rightarrow>
                         (Some u, if u \<noteq> [] then update_url (Some u) (c_message_id chunk) w2
                                  else w2)
                     | (None, w2) \<Rightarrow> (cdnUrl, w2))
               else (cdnUrl, if truthy cdnUrl then update_url cdnUrl (c_message_id chunk) w1
                             else w1)))"

text \<open>
  The per-chunk proxy, \<open>GET /:id?index=N\<close>, from the chunk list on. A \<open>NaN\<close> index
  equals no idx.
\<close>

definition download_chunk :: "env \<Rightarrow> chunk_row list \<Rightarrow> string \<Rightarrow> world \<Rightarrow> response \<times> world" where
  "download_chunk e chunkRows chunkIndexStr w =
     (case find (\<lambda>ch. Some (c_idx ch) = parseInt chunkIndexStr 10) chunkRows of
        None \<Rightarrow> (Text_response ''Chunk not found'' 404, w)
      | Some chunk \<Rightarrow>
          (case download_isExpired (clock e (requests w)) (c_url chunk) of
             None \<Rightarrow> (Text_response ''Internal Server Error'' 500, w)
           | Some expired \<Rightarrow>
               (case (if expired then download_refresh e chunk (c_url chunk) w
                      else (c_url chunk, w)) of
                  (cdnUrl, w1) \<Rightarrow>
                    (case fetch e cdnUrl None w1 of
                       (Fetch_throws msg, w2) \<Rightarrow> (Text_response ''Internal Server Error'' 500, w2)
                     | (Fetch_response st b, w2) \<Rightarrow>
                         if \<not> ok st
                         then (Text_response (''Discord fetch failed: '' @ dec st) 502, w2)
                         else (Http_response 200
                                 [(''Content-Length'', dec (c_size chunk)),
                                  (''Content-Type'', ''application/octet-stream''),
                                  (''Cache-Control'', ''no-cache'')]
                                 [b] Closed, w2)))))"

text \<open>
  \<open>fetchChunkData\<close>: the attempts loop. The result is the buffer (\<open>Inr\<close>) or the message
  of the error thrown (\<open>Inl\<close>). \<open>attempt\<close> counts the attempts made so far.
\<close>

definition MAX_ATTEMPTS :: nat where
  "MAX_ATTEMPTS = 2"

function fetch_attempts ::
  "env \<Rightarrow> chunk_row \<Rightarrow> nat \<Rightarrow> string option \<Rightarrow> world \<Rightarrow> (string + string) \<times> world" where
  "fetch_attempts e chunk attempt cdnUrl w =
     (if attempt < MAX_ATTEMPTS
      then
        (case download_isExpired (clock e (requests w)) cdnUrl of
           None \<Rightarrow> (Inl ''Invalid URL'', w)
         | Some expired \<Rightarrow>
             (case (if expired \<or> (Suc attempt > 1 \<and> c_message_id chunk \<noteq> [])
                    then download_refresh e chunk cdnUrl w
                    else (cdnUrl, w)) of
                (cdnUrl1, w1) \<Rightarrow>
                  if aborted e (Attempt_fetch (c_idx chunk) (Suc attempt))
                  then (Inl ''Client aborted'', w1)
                  else
                    (case fetch e cdnUrl1 None w1 of
                       (Fetch_response st b, w2) \<Rightarrow>
                         if ok st then (Inr b, w2)
                         else if (st = 403 \<or> st = 410) \<and> Suc attempt < MAX_ATTEMPTS
                         then fetch_attempts e chunk (Suc attempt) cdnUrl1 w2
                         else if aborted e (Attempt_caught (c_idx chunk) (Suc attempt))
                         then (Inl (''Fetch failed: '' @ dec st), w2)
                         else if Suc attempt < MAX_ATTEMPTS
                         then fetch_attempts e chunk (Suc attempt) cdnUrl1 w2
                         else (Inl (''Fetch failed: '' @ dec st), w2)
                     | (Fetch_throws msg, w2) \<Rightarrow>
                         if aborted e (Attempt_caught (c_idx chunk) (Suc attempt))
                            \<or> msg = ''Client aborted''
                         then (Inl msg, w2)
                         else if Suc attempt < MAX_ATTEMPTS
                         then fetch_attempts e chunk (Suc attempt) cdnUrl1 w2
                         else (Inl msg, w2))))
      else (Inl ''Unreachable'', w))"
  by pat_completeness auto
termination
  by (relation "measure (\<lambda>(e, chunk, attempt, cdnUrl, w). MAX_ATTEMPTS - attempt)") auto

declare fetch_attempts.simps [simp del]

definition fetchChunkData :: "env \<Rightarrow> chunk_row \<Rightarrow> world \<Rightarrow> (string + string) \<times> world" where
  "fetchChunkData e chunk w =
     (if aborted e (Fetch_entry (c_idx chunk)) then (Inl ''Client aborted'', w)
      else fetch_attempts e chunk 0 (c_url chunk) w)"

text \<open>
  The sliding window. \<open>chunkPromises\<close> holds, for each position, \<open>None\<close> (null) or the
  outcome of the fetch started for it. A fetch is a request to a service outside; what
  it returns is fixed by the environment when it is started, so a started fetch is
  recorded with its outcome, and awaiting it reads the outcome. The fetches are started
  in the order of the source: positions \<open>0\<close> to \<open>WINDOW_SIZE - 1\<close> first, then position
  \<open>i + WINDOW_SIZE\<close> while position \<open>i\<close> is served.
\<close>

definition WINDOW_SIZE :: nat where
  "WINDOW_SIZE = 2"

fun start_fetches ::
  "env \<Rightarrow> chunk_row list \<Rightarrow> nat list \<Rightarrow> (string + string) option list \<Rightarrow> world
     \<Rightarrow> (string + string) option list \<times> world" where
  "start_fetches e filteredChunks [] chunkPromises w = (chunkPromises, w)"
| "start_fetches e filteredChunks (i # rest) chunkPromises w =
     (case fetchChunkData e (filteredChunks ! i) w of
        (r, w1) \<Rightarrow> start_fetches e filteredChunks rest (chunkPromises[i := Some r]) w1)"

function write_chunks ::
  "env \<Rightarrow> chunk_row list \<Rightarrow> (string + string) option list \<Rightarrow> nat \<Rightarrow> string list \<Rightarrow> world
     \<Rightarrow> string list \<times> stream_end \<times> world" where
  "write_chunks e filteredChunks chunkPromises i written w =
     (if i < length filteredChunks
      then
        if aborted e (Loop_top i) then (written, Errored ''Client aborted'', w)
        else
          (case (if i < length chunkPromises then chunkPromises ! i else None) of
             None \<Rightarrow>
               (written,
                Errored (''Chunk '' @ int_str (c_idx (filteredChunks ! i)) @ '' data missing''), w)
           | Some (Inl err) \<Rightarrow> (written, Errored err, w)
           | Some (Inr currentData) \<Rightarrow>
               (case (if i + WINDOW_SIZE < length filteredChunks
                      then start_fetches e filteredChunks [i + WINDOW_SIZE]
                             (chunkPromises[i := None]) w
                      else (chunkPromises[i := None], w)) of
                  (chunkPromises1, w1) \<Rightarrow>
                    if aborted e (Before_write i) then (written, Errored ''Client aborted'', w1)
                    else write_chunks e filteredChunks chunkPromises1 (Suc i)
                           (written @ [currentData]) w1))
      else (written, Closed, w))"
  by pat_completeness auto
termination
  by (relation "measure (\<lambda>(e, filteredChunks, chunkPromises, i, written, w).
                  length filteredChunks - i)") auto

declare write_chunks.simps [simp del]

text \<open>
  The full-file stream, \<open>GET /:id[?start_chunk=K][&inline=true]\<close>, from the chunk list
  on. The response is returned with its headers at once and its body is written by the
  pipeline; the model gives the response with the body the pipeline ends up writing.
\<close>

definition download_stream ::
  "env \<Rightarrow> file_row \<Rightarrow> chunk_row list \<Rightarrow> string option \<Rightarrow> string option \<Rightarrow> world
     \<Rightarrow> response \<times> world" where
  "download_stream e file chunkRows start_chunk inline w =
     (let totalEncryptedSize = foldl (\<lambda>acc ch. acc + c_size ch) 0 chunkRows;
          filteredChunks =
            (case parseInt (or_else start_chunk ''0'') 10 of
               None \<Rightarrow> []
             | Some startChunkIndex \<Rightarrow> filter (\<lambda>ch. c_idx ch \<ge> startChunkIndex) chunkRows);
          disposition = (if inline = Some ''true'' then ''inline'' else ''attachment'')
      in (case start_fetches e filteredChunks [0..<min WINDOW_SIZE (length filteredChunks)]
                 (replicate (length filteredChunks) None) w of
            (chunkPromises, w1) \<Rightarrow>
              (case write_chunks e filteredChunks chunkPromises 0 [] w1 of
                 (written, fin, w2) \<Rightarrow>
                   (Http_response 200
                      [(''Content-Length'', dec totalEncryptedSize),
                       (''Content-Disposition'',
                        disposition @ ''; filename*=UTF-8'' @ [CHR 0x27, CHR 0x27]
                          @ encodeURIComponent (f_name file)),
                       (''Content-Type'', or_else (f_type file) ''application/octet-stream''),
                       (''Cache-Control'', ''no-cache'')]
                      written fin, w2))))"

text \<open>\<open>GET /:id\<close> of the download route; \<open>index\<close>, \<open>start_chunk\<close> and \<open>inline\<close> are the query parameters.\<close>

definition download_get ::
  "env \<Rightarrow> string \<Rightarrow> string option \<Rightarrow> string option \<Rightarrow> string option \<Rightarrow> world
     \<Rightarrow> response \<times> world" where
  "download_get e fileId index start_chunk inline w =
     (case get_file (database w) fileId of
        None \<Rightarrow> (Text_response ''File not found'' 404, w)
      | Some file \<Rightarrow>
          if getChunks (database w) fileId = [] then (Text_response ''File has no chunks'' 404, w)
          else (case index of
                  Some chunkIndexStr \<Rightarrow>
                    download_chunk e (getChunks (database w) fileId) chunkIndexStr w
                | None \<Rightarrow>
                    download_stream e file (getChunks (database w) fileId) start_chunk inline w))"

text \<open>
  The reference the full-file stream is compared with: the chunks fetched one after the
  other in list order, each fetch started when the one before it has returned.
\<close>

fun fetch_in_order :: "env \<Rightarrow> chunk_row list \<Rightarrow> world \<Rightarrow> (string + string) list \<times> world" where
  "fetch_in_order e [] w = ([], w)"
| "fetch_in_order e (c # cs) w =
     (case fetchChunkData e c w of
        (r, w1) \<Rightarrow> (case fetch_in_order e cs w1 of (rs, w2) \<Rightarrow> (r # rs, w2)))"

section \<open>Requests a handler sends\<close>

text \<open>A refresh attempt is a bulk refresh or a message lookup.\<close>

fun is_refresh :: "request \<Rightarrow> bool" where
  "is_refresh (Refresh_urls _) = True"
| "is_refresh (Get_message _) = True"
| "is_refresh (Fetch_url _ _) = False"

section \<open>Sample data for the download and stream routes\<close>




text \<open>
  Two environments, at a clock of 1700000000 seconds, no backup channel, a client that
  stays connected. In the first the CDN answers every fetch 200 with the URL in angle
  brackets as the body, and every other request fails; in the second the CDN answers
  every fetch 503.
\<close>

definition cdn_up :: env where
  "cdn_up =
     \<lparr>answer = (\<lambda>hist rq. case rq of Fetch_url u r \<Rightarrow> Http 200 (''<'' @ u @ ''>'')
                             | _ \<Rightarrow> Throws ''unavailable''),
      clock = (\<lambda>hist. 1700000000000), backup_channel = None, aborted = (\<lambda>p. False)\<rparr>"


text \<open>
  A file of 12 bytes in two chunks, \<open>Hello\<close> and \<open>Jenkins\<close>, and two more
  environments: a CDN that serves both chunks, and one that serves the first and answers
  503 for everything else.
\<close>

definition hello_file :: file_row where
  "hello_file =
     \<lparr>f_id = ''h'', f_name = ''hello world.txt'', f_size = 12, f_type = None,
      f_iv = [], f_salt = [], f_status = Active, f_created_at = 0\<rparr>"

definition hello_chunk :: "nat \<Rightarrow> int \<Rightarrow> string \<Rightarrow> nat \<Rightarrow> string \<Rightarrow> chunk_row" where
  "hello_chunk rowid i mid sz u =
     \<lparr>c_id = rowid, c_file_id = ''h'', c_idx = i, c_message_id = mid, c_channel_id = ''ch'',
      c_size = sz, c_url = Some u\<rparr>"

definition hello_world :: world where
  "hello_world =
     sample_world [hello_file]
       [hello_chunk 1 0 ''m0'' 5 ''https://cdn.example/m0.bin?ex=ffffffff'',
        hello_chunk 2 1 ''m1'' 7 ''https://cdn.example/m1.bin?ex=ffffffff'']"

definition cdn_store :: env where
  "cdn_store =
     \<lparr>answer = (\<lambda>hist rq.
         if rq = Fetch_url ''https://cdn.example/m0.bin?ex=ffffffff'' None then Http 200 ''Hello''
         else if rq = Fetch_url ''https://cdn.example/m1.bin?ex=ffffffff'' None then Http 200 ''Jenkins''
         else Throws ''unavailable''),
      clock = (\<lambda>hist. 1700000000000), backup_channel = None, aborted = (\<lambda>p. False)\<rparr>"

definition cdn_flaky :: env where
  "cdn_flaky =
     \<lparr>answer = (\<lambda>hist rq.
         if rq = Fetch_url ''https://cdn.example/m0.bin?ex=ffffffff'' None then Http 200 ''Hello''
         else (case rq of Fetch_url u r \<Rightarrow> Http 503 ''unavailable'' | _ \<Rightarrow> Throws ''unavailable'')),
      clock = (\<lambda>hist. 1700000000000), backup_channel = None, aborted = (\<lambda>p. False)\<rparr>"

text \<open>
  The first chunk of that file alone, with a given stored URL. The clock of the sample
  environments, 1700000000 seconds, is \<open>0x6553f100\<close>.
\<close>

definition expiry_world :: "string \<Rightarrow> world" where
  "expiry_world u = sample_world [hello_file] [hello_chunk 1 0 ''m0'' 5 u]"


section \<open>Facts about the index operations\<close>

lemma find_status_map:
  "find (\<lambda>r. f_id r = fid) (map (\<lambda>r. if f_id r = fid then r\<lparr>f_status := s\<rparr> else r) xs)
     = map_option (\<lambda>r. r\<lparr>f_status := s\<rparr>) (find (\<lambda>r. f_id r = fid) xs)"
  by (induction xs) auto

lemma status_map_absent:
  "find (\<lambda>r. f_id r = fid) xs = None \<Longrightarrow>
   map (\<lambda>r. if f_id r = fid then r\<lparr>f_status := s\<rparr> else r) xs = xs"
  by (induction xs) (auto split: if_splits)


lemma find_filter_other_ids [simp]:
  "find (\<lambda>r. f_id r = fid) (filter (\<lambda>r. f_id r \<noteq> fid) xs) = None"
  by (induction xs) auto




lemma f_id_pending_row [simp]: "f_id (pending_row now fid name sz meta) = fid"
  by (simp add: pending_row_def)

section \<open>Init\<close>




section \<open>Finalize\<close>

text \<open>
  C10. Finalize always answers success. When no row has the id, the index is unchanged;
  when a row has it, a lookup of the id afterwards finds that row with status active,
  whatever its status was.
\<close>

theorem finalize_unconditional:
  "fst (upload_finalize fid skip w) = Api_success No_data \<and>
   (get_file (database w) fid = None \<longrightarrow> database (snd (upload_finalize fid skip w)) = database w) \<and>
   (\<forall>r. get_file (database w) fid = Some r \<longrightarrow>
        get_file (database (snd (upload_finalize fid skip w))) fid = Some (r\<lparr>f_status := Active\<rparr>))"
  by (auto simp: upload_finalize_def Let_def backupDatabase_def get_file_def set_status_def
        find_status_map status_map_absent)

text \<open>The witness: no row at all, and a trashed row that comes back as active.\<close>

theorem finalize_unconditional_witness:
  "get_file (database (sample_world [] [])) ''a'' = None \<and>
   fst (upload_finalize ''a'' True (sample_world [] [])) = Api_success No_data \<and>
   database (snd (upload_finalize ''a'' True (sample_world [] []))) = database (sample_world [] []) \<and>
   get_file (database (sample_world [sample_file Trashed] [])) ''a'' = Some (sample_file Trashed) \<and>
   get_file (database (snd (upload_finalize ''a'' False (sample_world [sample_file Trashed] [])))) ''a''
     = Some (sample_file Active)"
  using finalize_unconditional [of "''a''" True "sample_world [] []"]
        finalize_unconditional [of "''a''" False "sample_world [sample_file Trashed] []"]
  by (simp add: sample_world_def sample_file_def get_file_def)

section \<open>Chunk upload\<close>

lemma pending_exists_files:
  "files d' = files d \<Longrightarrow> pending_exists d' fid = pending_exists d fid"
  by (simp add: pending_exists_def)

lemma pending_has_file: "pending_exists d fid \<Longrightarrow> get_file d fid \<noteq> None"
  by (auto simp: pending_exists_def get_file_def find_None_iff)

lemma bulk_delete_database [simp]: "database (bulkDeleteFromDiscord ms w) = database w"
  by (simp add: bulkDeleteFromDiscord_def)

lemma bulk_delete_single [simp]:
  "bulk_deletes (bulkDeleteFromDiscord [m] w) = bulk_deletes w @ [[m]]"
  by (simp add: bulkDeleteFromDiscord_def)

lemma abort_removes_pending:
  "\<not> pending_exists (database (snd (upload_abort fid w))) fid"
  by (auto simp: upload_abort_def Let_def pending_exists_def delete_files_def find_None_iff)

lemma before_upload_ok:
  assumes "b \<noteq> []" and "pending_exists (database w) fid"
  shows "\<exists>w1. chunk_before_upload fid i b w = Inr w1 \<and>
           files (database w1) = files (database w) \<and>
           foreign_keys (database w1) = foreign_keys (database w) \<and>
           chunk_seq (database w1) = chunk_seq (database w) \<and>
           chunks (database w1) = filter (\<lambda>c. \<not> (c_file_id c = fid \<and> c_idx c = i)) (chunks (database w)) \<and>
           bulk_deletes w1 = bulk_deletes w @
              (case find (\<lambda>c. c_file_id c = fid \<and> c_idx c = i) (chunks (database w)) of
                 None \<Rightarrow> [] | Some e \<Rightarrow> [[c_message_id e]])"
proof (cases "find (\<lambda>c. c_file_id c = fid \<and> c_idx c = i) (chunks (database w))")
  case None
  then have "filter (\<lambda>c. \<not> (c_file_id c = fid \<and> c_idx c = i)) (chunks (database w)) = chunks (database w)"
    by (auto simp: find_None_iff filter_id_conv)
  with None assms show ?thesis by (simp add: chunk_before_upload_def)
next
  case (Some e)
  with assms show ?thesis by (simp add: chunk_before_upload_def delete_chunks_def)
qed

lemma upload_chunk_alone:
  assumes "b \<noteq> []" and "pending_exists (database w) fid"
  shows "\<exists>w'. upload_chunk channel fid i b (Uploaded att) (\<lambda>w. w) w = (Api_success (Message_id (a_id att)), w') \<and>
           files (database w') = files (database w) \<and>
           chunks (database w') = filter (\<lambda>c. \<not> (c_file_id c = fid \<and> c_idx c = i)) (chunks (database w))
                @ [new_chunk channel fid i b att (database w)] \<and>
           bulk_deletes w' = bulk_deletes w @
              (case find (\<lambda>c. c_file_id c = fid \<and> c_idx c = i) (chunks (database w)) of
                 None \<Rightarrow> [] | Some e \<Rightarrow> [[c_message_id e]])"
proof -
  from before_upload_ok[OF assms, of i] obtain w1 where w1:
    "chunk_before_upload fid i b w = Inr w1"
    "files (database w1) = files (database w)"
    "chunk_seq (database w1) = chunk_seq (database w)"
    "chunks (database w1) = filter (\<lambda>c. \<not> (c_file_id c = fid \<and> c_idx c = i)) (chunks (database w))"
    "bulk_deletes w1 = bulk_deletes w @
              (case find (\<lambda>c. c_file_id c = fid \<and> c_idx c = i) (chunks (database w)) of
                 None \<Rightarrow> [] | Some e \<Rightarrow> [[c_message_id e]])"
    by blast
  have p1: "pending_exists (database w1) fid"
    using assms(2) w1(2) by (simp add: pending_exists_def)
  then have "get_file (database w1) fid \<noteq> None" by (rule pending_has_file)
  with w1 p1 show ?thesis
    by (simp add: upload_chunk_def chunk_after_upload_def insert_chunk_def new_chunk_def)
qed

lemma upload_chunk_fails:
  assumes "b = [] \<or> \<not> pending_exists (database w) fid"
  shows "status_code (fst (upload_chunk channel fid i b outcome during w)) \<noteq> 200"
  using assms by (auto simp: upload_chunk_def chunk_before_upload_def)

lemma find_of_filter: "filter P xs = x # ys \<Longrightarrow> find P xs = Some x"
  by (induction xs) (auto split: if_splits)

lemma chunks_at_after:
  "chunks d' = filter (\<lambda>c. \<not> (c_file_id c = fid \<and> c_idx c = i)) (chunks d) @ [new_chunk channel fid i b att d]
   \<Longrightarrow> chunks_at d' fid i = [new_chunk channel fid i b att d]"
  by (simp add: chunks_at_def new_chunk_def)

lemma unique_idx_after:
  assumes "unique_idx d"
    and "chunks d' = filter (\<lambda>c. \<not> (c_file_id c = fid \<and> c_idx c = i)) (chunks d) @ [new_chunk channel fid i b att d]"
  shows "unique_idx d'"
proof -
  have "distinct (map (\<lambda>c. (c_file_id c, c_idx c)) (filter (\<lambda>c. \<not> (c_file_id c = fid \<and> c_idx c = i)) (chunks d)))"
    using assms(1) unfolding unique_idx_def by (rule distinct_map_filter)
  then show ?thesis
    using assms(2) by (auto simp: unique_idx_def new_chunk_def)
qed

lemma seq_all_succeed:
  assumes "pending_exists (database w) fid" and "\<forall>c\<in>set calls. fst c \<noteq> []"
  shows "map fst (upload_chunk_seq channel fid i calls w)
           = map (\<lambda>c. Api_success (Message_id (a_id (snd c)))) calls \<and>
         (\<forall>rw\<in>set (upload_chunk_seq channel fid i calls w).
            files (database (snd rw)) = files (database w) \<and>
            set (concat (bulk_deletes w)) \<subseteq> scheduled (snd rw) \<and>
            (unique_idx (database w) \<longrightarrow> unique_idx (database (snd rw))))"
  using assms
proof (induction calls arbitrary: w)
  case Nil
  then show ?case by simp
next
  case (Cons c calls)
  obtain b att where c: "c = (b, att)" by (cases c)
  from Cons.prems c have b: "b \<noteq> []" by simp
  from upload_chunk_alone[OF b Cons.prems(1), of channel i att] obtain w' where w':
    "upload_chunk channel fid i b (Uploaded att) (\<lambda>w. w) w = (Api_success (Message_id (a_id att)), w')"
    "files (database w') = files (database w)"
    "chunks (database w') = filter (\<lambda>c. \<not> (c_file_id c = fid \<and> c_idx c = i)) (chunks (database w))
                @ [new_chunk channel fid i b att (database w)]"
    "bulk_deletes w' = bulk_deletes w @
              (case find (\<lambda>c. c_file_id c = fid \<and> c_idx c = i) (chunks (database w)) of
                 None \<Rightarrow> [] | Some e \<Rightarrow> [[c_message_id e]])"
    by blast
  have p': "pending_exists (database w') fid"
    using Cons.prems(1) w'(2) by (simp add: pending_exists_def)
  have sub: "set (concat (bulk_deletes w)) \<subseteq> set (concat (bulk_deletes w'))"
    using w'(4) by auto
  have uq: "unique_idx (database w) \<Longrightarrow> unique_idx (database w')"
    using unique_idx_after[OF _ w'(3)] by simp
  from Cons.IH[OF p', of ] Cons.prems(2)
  have IH: "map fst (upload_chunk_seq channel fid i calls w')
           = map (\<lambda>c. Api_success (Message_id (a_id (snd c)))) calls"
    "\<forall>rw\<in>set (upload_chunk_seq channel fid i calls w').
            files (database (snd rw)) = files (database w') \<and>
            set (concat (bulk_deletes w')) \<subseteq> scheduled (snd rw) \<and>
            (unique_idx (database w') \<longrightarrow> unique_idx (database (snd rw)))"
    by simp_all
  show ?case
    using c w' IH sub uq by (auto simp: scheduled_def)
qed

lemma seq_nonempty: "calls \<noteq> [] \<Longrightarrow> upload_chunk_seq channel fid i calls w \<noteq> []"
  by (cases calls) (auto simp: Let_def)

lemma seq_overwrites:
  assumes "pending_exists (database w) fid" and "\<forall>c\<in>set calls. fst c \<noteq> []" and "calls \<noteq> []"
  shows "(\<exists>row. chunks_at (database (snd (last (upload_chunk_seq channel fid i calls w)))) fid i = [row] \<and>
            c_size row = length (fst (last calls)) \<and> c_message_id row = a_id (snd (last calls))) \<and>
         (\<forall>c\<in>set (butlast calls). a_id (snd c) \<in> scheduled (snd (last (upload_chunk_seq channel fid i calls w))))"
  using assms
proof (induction calls arbitrary: w)
  case Nil
  then show ?case by simp
next
  case (Cons c calls)
  obtain b att where c: "c = (b, att)" by (cases c)
  from Cons.prems c have b: "b \<noteq> []" by simp
  from upload_chunk_alone[OF b Cons.prems(1), of channel i att] obtain w' where w':
    "upload_chunk channel fid i b (Uploaded att) (\<lambda>w. w) w = (Api_success (Message_id (a_id att)), w')"
    "files (database w') = files (database w)"
    "chunks (database w') = filter (\<lambda>c. \<not> (c_file_id c = fid \<and> c_idx c = i)) (chunks (database w))
                @ [new_chunk channel fid i b att (database w)]"
    by blast
  have p': "pending_exists (database w') fid"
    using Cons.prems(1) w'(2) by (simp add: pending_exists_def)
  have at': "chunks_at (database w') fid i = [new_chunk channel fid i b att (database w)]"
    using w'(3) by (rule chunks_at_after)
  show ?case
  proof (cases calls)
    case Nil
    with c w' at' show ?thesis by (simp add: new_chunk_def)
  next
    case (Cons c2 rest)
    obtain b2 att2 where c2: "c2 = (b2, att2)" by (cases c2)
    have ne: "calls \<noteq> []" using Cons by simp
    from Cons.prems(2) have all: "\<forall>c\<in>set calls. fst c \<noteq> []" by simp
    note IH = Cons.IH[OF p' all ne]
    have b2: "b2 \<noteq> []" using all Cons c2 by simp
    have found: "find (\<lambda>c. c_file_id c = fid \<and> c_idx c = i) (chunks (database w'))
                   = Some (new_chunk channel fid i b att (database w))"
      using at' unfolding chunks_at_def by (rule find_of_filter)
    from upload_chunk_alone[OF b2 p', of channel i att2] found obtain w2 where w2:
      "upload_chunk channel fid i b2 (Uploaded att2) (\<lambda>w. w) w' = (Api_success (Message_id (a_id att2)), w2)"
      "bulk_deletes w2 = bulk_deletes w' @ [[a_id att]]"
      by (auto simp: new_chunk_def)
    have first_in: "a_id att \<in> scheduled (snd (last (upload_chunk_seq channel fid i calls w')))"
    proof (cases rest)
      case Nil
      with Cons c2 w2 show ?thesis by (simp add: Let_def scheduled_def)
    next
      case (Cons c3 rest')
      have p2: "pending_exists (database w2) fid"
        using upload_chunk_alone[OF b2 p', of channel i att2] w2(1) p'
        by (auto simp: pending_exists_def)
      have all2: "\<forall>c\<in>set rest. fst c \<noteq> []" using all \<open>calls = c2 # rest\<close> by simp
      have "last (upload_chunk_seq channel fid i rest w2) \<in> set (upload_chunk_seq channel fid i rest w2)"
        using seq_nonempty[of rest] Cons by simp
      with seq_all_succeed[OF p2 all2, of channel i]
      have "set (concat (bulk_deletes w2)) \<subseteq> scheduled (snd (last (upload_chunk_seq channel fid i rest w2)))"
        by blast
      moreover have "last (upload_chunk_seq channel fid i calls w') = last (upload_chunk_seq channel fid i rest w2)"
        using \<open>calls = c2 # rest\<close> c2 w2(1) seq_nonempty[of rest] Cons by (simp add: Let_def)
      ultimately show ?thesis using w2(2) by auto
    qed
    have last_eq: "last (upload_chunk_seq channel fid i (c # calls) w) = last (upload_chunk_seq channel fid i calls w')"
      using c w'(1) seq_nonempty[OF ne] by (simp add: Let_def)
    show ?thesis
      using IH first_in ne c unfolding last_eq by auto
  qed
qed

lemma seq_success_needs:
  assumes "\<forall>rw\<in>set (upload_chunk_seq channel fid i calls w). status_code (fst rw) = 200"
  shows "(calls \<noteq> [] \<longrightarrow> pending_exists (database w) fid) \<and> (\<forall>c\<in>set calls. fst c \<noteq> [])"
  using assms
proof (induction calls arbitrary: w)
  case Nil
  then show ?case by simp
next
  case (Cons c calls)
  obtain b att where c: "c = (b, att)" by (cases c)
  let ?rw = "upload_chunk channel fid i b (Uploaded att) (\<lambda>w. w) w"
  from Cons.prems c have ok: "status_code (fst ?rw) = 200" by (simp add: Let_def)
  with upload_chunk_fails[of b w fid channel i "Uploaded att" "\<lambda>w. w"]
  have b: "b \<noteq> []" and p: "pending_exists (database w) fid" by blast+
  from upload_chunk_alone[OF b p, of channel i att]
  have "files (database (snd ?rw)) = files (database w)" by auto
  then have p': "pending_exists (database (snd ?rw)) fid"
    using p by (simp add: pending_exists_def)
  from Cons.prems c have "\<forall>rw\<in>set (upload_chunk_seq channel fid i calls (snd ?rw)). status_code (fst rw) = 200"
    by (simp add: Let_def)
  from Cons.IH[OF this] have "\<forall>c\<in>set calls. fst c \<noteq> []" by simp
  with b p c show ?case by simp
qed

text \<open>
  C2. A Chunk-Upload that reaches the external upload (\<open>chunk_before_upload\<close> lets it
  through, leaving the world \<open>wa\<close>), whose upload returns the attachment \<open>att\<close>, and that
  finds no pending row of its file in the world \<open>during wa\<close> it resumes in: the answer is
  404, the index is the one it resumed in (no chunk row is inserted), and one more
  bulk delete has been started, for the message just uploaded.
\<close>

theorem chunk_upload_abort_race:
  assumes "chunk_before_upload fileId chunkIndex buffer w = Inr wa"
    and "\<not> pending_exists (database (during wa)) fileId"
  shows "upload_chunk channel fileId chunkIndex buffer (Uploaded att) during w
           = (Api_error ''Upload aborted during transfer'' 404,
              (during wa)\<lparr>bulk_deletes := bulk_deletes (during wa) @ [[a_id att]]\<rparr>)"
  using assms
  by (simp add: upload_chunk_def chunk_after_upload_def bulkDeleteFromDiscord_def)

text \<open>
  The witness: the upload of chunk 0 of the pending sample file, with an Abort of the
  file served while the upload is in flight.
\<close>

theorem chunk_upload_abort_race_witness:
  "chunk_before_upload ''a'' 0 ''Hello Jenkins!'' (sample_world [sample_file Pending] [])
     = Inr (sample_world [sample_file Pending] []) \<and>
   \<not> pending_exists (database (snd (upload_abort ''a'' (sample_world [sample_file Pending] [])))) ''a'' \<and>
   upload_chunk ''ch'' ''a'' 0 ''Hello Jenkins!'' (Uploaded \<lparr>a_id = ''m1'', a_url = ''u1''\<rparr>)
       (\<lambda>w. snd (upload_abort ''a'' w)) (sample_world [sample_file Pending] [])
     = (Api_error ''Upload aborted during transfer'' 404,
        (sample_world [] [])\<lparr>bulk_deletes := [[''m1'']]\<rparr>)"
proof -
  have pre: "chunk_before_upload ''a'' 0 ''Hello Jenkins!'' (sample_world [sample_file Pending] [])
     = Inr (sample_world [sample_file Pending] [])"
    by (simp add: chunk_before_upload_def pending_exists_def sample_world_def sample_file_def)
  have gone: "\<not> pending_exists
      (database ((\<lambda>w. snd (upload_abort ''a'' w)) (sample_world [sample_file Pending] []))) ''a''"
    by (simp add: abort_removes_pending)
  have after: "snd (upload_abort ''a'' (sample_world [sample_file Pending] [])) = sample_world [] []"
    by (simp add: upload_abort_def Let_def chunks_of_def delete_files_def sample_world_def
          sample_file_def)
  show ?thesis
    using chunk_upload_abort_race
            [where fileId = "''a''" and chunkIndex = 0 and buffer = "''Hello Jenkins!''"
               and w = "sample_world [sample_file Pending] []"
               and wa = "sample_world [sample_file Pending] []"
               and during = "\<lambda>w. snd (upload_abort ''a'' w)" and channel = "''ch''"
               and att = "\<lparr>a_id = ''m1'', a_url = ''u1''\<rparr>"]
      pre gone after by (simp add: sample_world_def)
qed

lemma sample_run_last:
  "snd (last (upload_chunk_seq ''ch'' ''a'' 0 sample_calls (sample_world [sample_file Pending] [])))
     = \<lparr>database = \<lparr>files = [sample_file Pending],
                    chunks = [\<lparr>c_id = 3, c_file_id = ''a'', c_idx = 0, c_message_id = ''m3'',
                               c_channel_id = ''ch'', c_size = 5, c_url = Some ''u3''\<rparr>],
                    chunk_seq = 3, foreign_keys = False\<rparr>,
        bulk_deletes = [[''m1''], [''m2'']], backups = 0, requests = []\<rparr>"
  by (simp add: sample_calls_def sample_world_def sample_file_def upload_chunk_def
      chunk_before_upload_def chunk_after_upload_def pending_exists_def insert_chunk_def
      get_file_def delete_chunks_def bulkDeleteFromDiscord_def Let_def)

lemma sample_run_codes:
  "map (status_code \<circ> fst)
       (upload_chunk_seq ''ch'' ''a'' 0 sample_calls (sample_world [sample_file Pending] []))
     = [200, 200, 200]"
  by (simp add: sample_calls_def sample_world_def sample_file_def upload_chunk_def
      chunk_before_upload_def chunk_after_upload_def pending_exists_def insert_chunk_def
      get_file_def delete_chunks_def bulkDeleteFromDiscord_def Let_def)

text \<open>
  C3. After one or more Chunk-Upload calls at \<open>(fid, i)\<close>, run one after the other and
  all answered 200: exactly one chunk row of \<open>(fid, i)\<close> exists, with the byte length of
  the last body as its size and the last upload's message as its message; the message
  of every earlier call of the run has been handed to bulk delete; and if no two rows
  shared a \<open>(file_id, idx)\<close> before the run, none do after any call of it.
\<close>

theorem chunk_overwrite_idempotent:
  assumes "calls \<noteq> []"
    and "\<forall>rw\<in>set (upload_chunk_seq channel fid i calls w). status_code (fst rw) = 200"
  shows "(\<exists>row. chunks_at (database (snd (last (upload_chunk_seq channel fid i calls w)))) fid i = [row] \<and>
            c_size row = length (fst (last calls)) \<and> c_message_id row = a_id (snd (last calls))) \<and>
         (\<forall>c\<in>set (butlast calls).
            a_id (snd c) \<in> scheduled (snd (last (upload_chunk_seq channel fid i calls w)))) \<and>
         (unique_idx (database w) \<longrightarrow>
            (\<forall>rw\<in>set (upload_chunk_seq channel fid i calls w). unique_idx (database (snd rw))))"
proof -
  from seq_success_needs[OF assms(2)] assms(1)
  have p: "pending_exists (database w) fid" and ne: "\<forall>c\<in>set calls. fst c \<noteq> []" by simp_all
  from seq_overwrites[OF p ne assms(1), of channel i] seq_all_succeed[OF p ne, of channel i]
  show ?thesis by blast
qed

text \<open>
  The witness: the three sample uploads of chunk 0 of the pending sample file. All are
  answered 200; one row of 5 bytes with message \<open>m3\<close> remains; \<open>m1\<close> and \<open>m2\<close> have
  been handed to bulk delete.
\<close>

theorem chunk_overwrite_idempotent_witness:
  "sample_calls \<noteq> [] \<and>
   map (status_code \<circ> fst)
       (upload_chunk_seq ''ch'' ''a'' 0 sample_calls (sample_world [sample_file Pending] []))
     = [200, 200, 200] \<and>
   map c_size (chunks_at (database (snd (last
       (upload_chunk_seq ''ch'' ''a'' 0 sample_calls (sample_world [sample_file Pending] [])))))
       ''a'' 0) = [5] \<and>
   map c_message_id (chunks_at (database (snd (last
       (upload_chunk_seq ''ch'' ''a'' 0 sample_calls (sample_world [sample_file Pending] [])))))
       ''a'' 0) = [''m3''] \<and>
   ''m1'' \<in> scheduled (snd (last
       (upload_chunk_seq ''ch'' ''a'' 0 sample_calls (sample_world [sample_file Pending] [])))) \<and>
   ''m2'' \<in> scheduled (snd (last
       (upload_chunk_seq ''ch'' ''a'' 0 sample_calls (sample_world [sample_file Pending] [])))) \<and>
   unique_idx (database (sample_world [sample_file Pending] [])) \<and>
   unique_idx (database (snd (last
       (upload_chunk_seq ''ch'' ''a'' 0 sample_calls (sample_world [sample_file Pending] [])))))"
proof -
  have ne: "sample_calls \<noteq> []" by (simp add: sample_calls_def)
  have ok: "\<forall>rw\<in>set (upload_chunk_seq ''ch'' ''a'' 0 sample_calls
                       (sample_world [sample_file Pending] [])). status_code (fst rw) = 200"
    by (simp add: sample_calls_def sample_world_def sample_file_def upload_chunk_def
        chunk_before_upload_def chunk_after_upload_def pending_exists_def insert_chunk_def
        get_file_def delete_chunks_def bulkDeleteFromDiscord_def Let_def)
  have uq: "unique_idx (database (sample_world [sample_file Pending] []))"
    by (simp add: unique_idx_def sample_world_def)
  show ?thesis
    using chunk_overwrite_idempotent [OF ne ok] ne uq sample_run_codes
    by (simp add: sample_run_last chunks_at_def scheduled_def unique_idx_def)
qed

text \<open>
  The run of C3 is sequential. Two Chunk-Uploads of one \<open>(fileId, idx)\<close> that overlap
  are a different matter: when the second is served while the first waits for its
  external upload, both find nothing to overwrite, both insert, and the pair has two rows.
\<close>

lemma overlapping_uploads_duplicate:
  "map c_message_id (chunks_at (database (snd
     (upload_chunk ''ch'' ''a'' 0 ''Hello Jenkins!'' (Uploaded \<lparr>a_id = ''m1'', a_url = ''u1''\<rparr>)
        (\<lambda>w. snd (upload_chunk ''ch'' ''a'' 0 ''Hello Jenkins!''
                      (Uploaded \<lparr>a_id = ''m2'', a_url = ''u2''\<rparr>) (\<lambda>w. w) w))
        (sample_world [sample_file Pending] [])))) ''a'' 0) = [''m2'', ''m1'']"
  by (simp add: sample_world_def sample_file_def upload_chunk_def chunk_before_upload_def
        chunk_after_upload_def pending_exists_def insert_chunk_def get_file_def chunks_at_def)

section \<open>Abort\<close>

lemma abort_pending_file:
  assumes "get_file (database w) fid = Some r" and "f_status r = Pending"
    and "distinct (map f_id (files (database w)))"
  shows "get_file (database (snd (upload_abort fid w))) fid = None"
proof -
  have "\<And>x. x \<in> set (files (database w)) \<Longrightarrow> f_id x = fid \<Longrightarrow> x = r"
    using assms(1,3) unfolding get_file_def
    by (metis (mono_tags, lifting) distinct_map find_Some_iff inj_onD nth_mem)
  then show ?thesis
    using assms(2)
    by (auto simp: upload_abort_def Let_def get_file_def delete_files_def find_None_iff)
qed

lemma abort_schedules_chunks_of_id:
  "bulk_deletes (snd (upload_abort fid w))
     = bulk_deletes w @ (if chunks_of (database w) fid = [] then []
                         else [map c_message_id (chunks_of (database w) fid)])"
  by (simp add: upload_abort_def Let_def bulkDeleteFromDiscord_def)

text \<open>
  C7 at its failing input. The file \<open>a\<close> is active and has one chunk, stored in message
  \<open>m1\<close>. Abort answers success and leaves both rows in place, as the claim says, but it
  hands \<open>m1\<close> to bulk delete: the SELECT that collects the message ids has no test of
  the status, only the DELETE of the file row has one.
\<close>

theorem abort_active_file_schedules_deletion:
  "upload_abort ''a'' (sample_world [sample_file Active] [sample_chunk 1 0 ''m1'' 14])
     = (Api_success No_data,
        (sample_world [sample_file Active] [sample_chunk 1 0 ''m1'' 14])\<lparr>bulk_deletes := [[''m1'']]\<rparr>)"
  by (simp add: upload_abort_def Let_def chunks_of_def delete_files_def sample_world_def
        sample_file_def sample_chunk_def bulkDeleteFromDiscord_def)

section \<open>Cascade\<close>

text \<open>
  On a connection that enforces foreign keys, deleting file rows leaves no chunk row of
  a deleted file. The two operations that delete the chunks by a statement of their own
  (Empty-Trash, Bulk-Purge-Pending) leave none on any connection.
\<close>

lemma cascade_when_enforced:
  assumes "foreign_keys d" and "r \<in> set (files d)" and "P r"
  shows "chunks_of (delete_files P d) (f_id r) = []"
  using assms by (auto simp: chunks_of_def delete_files_def Let_def filter_empty_conv)

lemma empty_trash_leaves_no_chunks:
  assumes "r \<in> set (files (database w))" and "f_status r = Trashed"
  shows "chunks_of (database (snd (files_empty_trash w))) (f_id r) = []"
  using assms
  by (auto simp: files_empty_trash_def Let_def trashed_ids_def chunks_of_def delete_files_def
        delete_chunks_def backupDatabase_def filter_empty_conv)

lemma purge_pending_leaves_no_chunks:
  assumes "r \<in> set (files (database w))" and "f_status r = Pending"
  shows "chunks_of (database (snd (upload_purge_pending w))) (f_id r) = []"
  using assms
  by (auto simp: upload_purge_pending_def Let_def pending_ids_def chunks_of_def delete_files_def
        delete_chunks_def bulkDeleteFromDiscord_def filter_empty_conv)

text \<open>
  C8 at its failing input, on the connection \<open>db/index.ts\<close> opens. Init of file \<open>a\<close>,
  one chunk uploaded into message \<open>m1\<close>, then Abort: the file row is gone and the chunk
  row of \<open>a\<close> is still in the chunk table.
\<close>

theorem abort_leaves_chunk_rows:
  "fst (upload_init 7 sample_meta fresh_world) = Api_success No_data \<and>
   fst (upload_chunk ''ch'' ''a'' 0 ''Hello Jenkins!'' (Uploaded \<lparr>a_id = ''m1'', a_url = ''u1''\<rparr>)
          (\<lambda>w. w) (snd (upload_init 7 sample_meta fresh_world))) = Api_success (Message_id ''m1'') \<and>
   get_file (database (snd (upload_abort ''a''
     (snd (upload_chunk ''ch'' ''a'' 0 ''Hello Jenkins!'' (Uploaded \<lparr>a_id = ''m1'', a_url = ''u1''\<rparr>)
          (\<lambda>w. w) (snd (upload_init 7 sample_meta fresh_world))))))) ''a'' = None \<and>
   map c_message_id (chunks_of (database (snd (upload_abort ''a''
     (snd (upload_chunk ''ch'' ''a'' 0 ''Hello Jenkins!'' (Uploaded \<lparr>a_id = ''m1'', a_url = ''u1''\<rparr>)
          (\<lambda>w. w) (snd (upload_init 7 sample_meta fresh_world))))))) ''a'') = [''m1'']"
  by (simp add: upload_init_def sample_meta_def fresh_world_def db_open_def get_file_def
      init_insert_def insert_file_def pending_row_def upload_chunk_def
      chunk_before_upload_def chunk_after_upload_def pending_exists_def insert_chunk_def
      upload_abort_def Let_def chunks_of_def delete_files_def bulkDeleteFromDiscord_def)

section \<open>Numbers and strings\<close>

lemma digit_cases: "d < 10 \<Longrightarrow> d = 0 \<or> d = 1 \<or> d = 2 \<or> d = 3 \<or> d = 4 \<or> d = 5 \<or> d = 6 \<or> d = 7 \<or> d = 8 \<or> d = (9::nat)"
  by arith

lemma digit_table:
  assumes "d < 10"
  shows "digit_val (''0123456789'' ! d) = Some d \<and> \<not> is_ws (''0123456789'' ! d) \<and>
         ''0123456789'' ! d \<noteq> CHR ''-'' \<and> ''0123456789'' ! d \<noteq> CHR ''+''"
  using digit_cases[OF assms] by (elim disjE) (simp_all add: digit_val_def is_ws_def)

lemma dec_digits: "c \<in> set (dec n) \<Longrightarrow> \<exists>d<10. c = ''0123456789'' ! d"
proof (induction n rule: dec.induct)
  case (1 n)
  show ?case
  proof (cases "n < 10")
    case True
    with "1.prems" show ?thesis by (auto simp: dec.simps[of n])
  next
    case False
    with "1.prems" have "c \<in> set (dec (n div 10)) \<or> c = ''0123456789'' ! (n mod 10)"
      by (auto simp: dec.simps[of n])
    with "1.IH" False show ?thesis
      by (metis mod_less_divisor zero_less_numeral)
  qed
qed

lemma dec_nonempty: "dec n \<noteq> []"
  by (subst dec.simps) simp

lemma dec_hd: "\<exists>d<10. \<exists>r. dec n = ''0123456789'' ! d # r"
proof -
  obtain c r where "dec n = c # r" using dec_nonempty[of n] by (cases "dec n") auto
  moreover then have "c \<in> set (dec n)" by simp
  ultimately show ?thesis using dec_digits by blast
qed

lemma digits_value_snoc:
  "digits_value r (ds @ [c]) = digits_value r ds * r + (case digit_val c of Some v \<Rightarrow> v | None \<Rightarrow> 0)"
  by (simp add: digits_value_def)

lemma digits_value_dec: "digits_value 10 (dec n) = n"
proof (induction n rule: dec.induct)
  case (1 n)
  show ?case
  proof (cases "n < 10")
    case True
    then show ?thesis
      using digit_table[of n] by (simp add: dec.simps[of n] digits_value_def)
  next
    case False
    then have "dec n = dec (n div 10) @ [''0123456789'' ! (n mod 10)]"
      by (simp add: dec.simps[of n])
    then show ?thesis
      using "1.IH" False digit_table[of "n mod 10"] by (simp add: digits_value_snoc)
  qed
qed

lemma dec_all_digits: "takeWhile (is_digit 10) (dec n) = dec n"
proof -
  have "\<And>c. c \<in> set (dec n) \<Longrightarrow> is_digit 10 c"
    using dec_digits digit_table by (fastforce simp: is_digit_def)
  then show ?thesis by (simp add: takeWhile_eq_all_conv)
qed

lemma parseInt_dec: "parseInt (dec n) 10 = Some (int n)"
proof -
  obtain d r where d: "d < 10" "dec n = ''0123456789'' ! d # r" using dec_hd by blast
  have ws: "dropWhile is_ws (dec n) = dec n"
    using d digit_table[of d] by simp
  have sign: "take 1 (dec n) \<noteq> ''-''" "take 1 (dec n) \<noteq> ''+''"
    using d digit_table[of d] by simp_all
  show ?thesis
    using sign by (simp add: parseInt_def Let_def ws dec_all_digits dec_nonempty digits_value_dec)
qed

lemma parseInt_int_str: "0 \<le> i \<Longrightarrow> parseInt (int_str i) 10 = Some i"
  by (simp add: int_str_def parseInt_dec)




lemma remove_bytes_prefix: "remove_first ''bytes='' (''bytes='' @ x) = x"
  by simp


section \<open>Range stream\<close>


lemma chunk_start_0 [simp]: "chunk_start cs 0 = 0"
  by (simp add: chunk_start_def)








lemmas js_eval = parseInt_def is_ws_def is_digit_def digit_val_def digits_value_def dec.simps
  int_str_def has_scheme_def is_alpha_def scheme_char_def url_query_def query_pair_def
  search_get_def unreserved_def encodeURIComponent_def

lemmas cdn_eval = send_def refreshDiscordUrls_def getDiscordCDNUrl_def fetch_def ok_def
  update_url_def getChunks_def chunks_of_def get_file_def





section \<open>Full-file download\<close>






lemma fetch_all_taken:
  "snd (fetch_in_order e (take (length fs) fs) w) = snd (fetch_in_order e fs w)"
  by simp








lemmas hello_eval = hello_world_def sample_world_def hello_chunk_def hello_file_def cdn_store_def
  cdn_flaky_def

lemmas download_eval = download_get_def download_stream_def download_chunk_def
  download_isExpired_def download_refresh_def fetchChunkData_def fetch_attempts.simps
  write_chunks.simps MAX_ATTEMPTS_def WINDOW_SIZE_def Let_def




text \<open>
  C5 at its failing input. The download of the two-chunk sample file from chunk 1 on
  (\<open>start_chunk=1\<close>) writes the second chunk alone, 7 bytes, and its Content-Length
  header says 12, the sum over all chunks of the file: \<open>totalEncryptedSize\<close> is computed
  from \<open>chunks\<close>, not from \<open>filteredChunks\<close>.
\<close>

theorem resumed_download_content_length:
  "parseInt (or_else (Some ''1'') ''0'') 10 = Some 1 \<and>
   map c_size (filter (\<lambda>ch. 1 \<le> c_idx ch) (getChunks (database hello_world) ''h'')) = [7] \<and>
   header ''Content-Length'' (fst (download_get cdn_store ''h'' None (Some ''1'') None hello_world))
     = Some ''12'' \<and>
   body (fst (download_get cdn_store ''h'' None (Some ''1'') None hello_world)) = ''Jenkins''"
  by (simp add: download_eval js_eval cdn_eval hello_eval)

section \<open>URL expiry and refresh\<close>

lemma send_requests [simp]: "requests (snd (send e rq w)) = requests w @ [rq]"
  by (simp add: send_def)

lemma update_url_requests [simp]: "requests (update_url u m w) = requests w"
  by (simp add: update_url_def)

lemma refresh_requests:
  "requests (snd (refreshDiscordUrls e [x] w)) = requests w @ [Refresh_urls [x]]"
  by (simp add: refreshDiscordUrls_def send_def split: reply.splits)

lemma lookup_requests:
  "requests (snd (getDiscordCDNUrl e m w)) = requests w @ [Get_message m]"
  by (simp add: getDiscordCDNUrl_def send_def split: reply.splits)

lemma fetch_requests:
  "requests (snd (fetch e (Some u) r w)) = requests w @ [Fetch_url u r]"
  by (simp add: fetch_def send_def split: reply.splits)

lemma fetch_none_requests: "requests (snd (fetch e None r w)) = requests w"
  by (simp add: fetch_def)

lemma fetch_grows: "\<exists>rest. requests (snd (fetch e url r w)) = requests w @ rest"
  by (cases url) (simp_all add: fetch_requests fetch_none_requests)

lemma isExpired_no_ex:
  "search_get u ''ex'' = Some None \<Longrightarrow> isExpired now (Some u)"
  by (simp add: isExpired_def)

lemma isExpired_soon:
  "search_get u ''ex'' = Some (Some h) \<Longrightarrow> parseInt h 16 = Some t \<Longrightarrow> t < now div 1000 + 300
     \<Longrightarrow> isExpired now (Some u)"
  by (simp add: isExpired_def)

lemma isExpired_later:
  "u \<noteq> [] \<Longrightarrow> search_get u ''ex'' = Some (Some h) \<Longrightarrow> parseInt h 16 = Some t
     \<Longrightarrow> now div 1000 + 300 \<le> t \<Longrightarrow> \<not> isExpired now (Some u)"
  by (auto simp: isExpired_def js_eval)

lemma bulk_refresh_requests:
  "requests (snd (stream_bulk_refresh e cdnUrl w))
     = requests w @ (if truthy cdnUrl then [Refresh_urls [cdnUrl]] else [])"
proof (cases "truthy cdnUrl")
  case True
  obtain r w1 where r: "refreshDiscordUrls e [cdnUrl] w = (r, w1)"
    by (cases "refreshDiscordUrls e [cdnUrl] w")
  then have "requests w1 = requests w @ [Refresh_urls [cdnUrl]]"
    using refresh_requests[of e cdnUrl w] by simp
  with True r show ?thesis
    by (simp add: stream_bulk_refresh_def split: option.splits list.splits)
next
  case False
  then show ?thesis by (simp add: stream_bulk_refresh_def)
qed

lemma bulk_refresh_falsy:
  "\<not> truthy cdnUrl \<Longrightarrow> stream_bulk_refresh e cdnUrl w = (cdnUrl, w)"
  by (simp add: stream_bulk_refresh_def)

lemma backup_lookup_grows:
  "\<exists>rest. requests (snd (stream_backup_lookup e m u w)) = requests w @ rest"
proof (cases "truthy (backup_channel e)")
  case True
  obtain r w1 where r: "getDiscordCDNUrl e m w = (r, w1)" by (cases "getDiscordCDNUrl e m w")
  then have "requests w1 = requests w @ [Get_message m]"
    using lookup_requests[of e m w] by simp
  with True r show ?thesis
    by (cases r) (simp_all add: stream_backup_lookup_def)
next
  case False
  then show ?thesis by (simp add: stream_backup_lookup_def)
qed

lemma stream_refresh_first:
  assumes "isExpired (clock e (requests w)) (c_url c)" and "c_message_id c \<noteq> []"
  shows "\<exists>rq rest. requests (snd (stream_refresh e c w)) = requests w @ rq # rest \<and> is_refresh rq"
proof -
  obtain url1 w1 where b: "stream_bulk_refresh e (c_url c) w = (url1, w1)"
    by (cases "stream_bulk_refresh e (c_url c) w")
  obtain r w2 where l: "getDiscordCDNUrl e (c_message_id c) w1 = (r, w2)"
    by (cases "getDiscordCDNUrl e (c_message_id c) w1")
  have w2: "requests w2 = requests w1 @ [Get_message (c_message_id c)]"
    using lookup_requests[of e "c_message_id c" w1] l by simp
  obtain rest3 where bk: "requests (snd (stream_backup_lookup e (c_message_id c) url1 w2)) = requests w2 @ rest3"
    using backup_lookup_grows by blast
  show ?thesis
  proof (cases "truthy (c_url c)")
    case True
    then have w1: "requests w1 = requests w @ [Refresh_urls [c_url c]]"
      using bulk_refresh_requests[of e "c_url c" w] b by simp
    show ?thesis
      using assms b l w1 w2 bk
      by (cases r) (auto simp: stream_refresh_def Let_def)
  next
    case False
    then have "url1 = c_url c" "w1 = w" using b by (simp_all add: bulk_refresh_falsy)
    then show ?thesis
      using assms b l w2 bk False
      by (cases r) (auto simp: stream_refresh_def Let_def)
  qed
qed

lemma stream_refresh_fresh:
  "\<not> isExpired (clock e (requests w)) (c_url c) \<Longrightarrow> stream_refresh e c w = (c_url c, w)"
  by (simp add: stream_refresh_def)

lemma stream_file_requests:
  assumes "get_file (database w) fid = Some row"
    and "parse_range (f_size row) hdr = (Some start, rangeEnd)"
    and "find_chunk start 0 (getChunks (database w) fid) = Some (c, off)"
  shows "\<exists>rest. requests (snd (stream_file e fid hdr w)) = requests (snd (stream_refresh e c w)) @ rest \<and>
            (\<forall>rq\<in>set rest. \<not> is_refresh rq)"
proof -
  obtain u w1 where r: "stream_refresh e c w = (u, w1)" by (cases "stream_refresh e c w")
  show ?thesis
  proof (cases u)
    case None
    with assms r show ?thesis
      by (simp add: stream_file_def Let_def fetch_def)
  next
    case (Some x)
    let ?rh = "Some (''bytes='' @ int_str (start - off) @ ''-'' @
                 num_str (map_option (\<lambda>a. start - off + a - 1)
                   (map_option (\<lambda>r. min r (int (c_size c) - (start - off)))
                      (map_option (\<lambda>x. x - start + 1) rangeEnd))))"
    obtain f w2 where f: "fetch e (Some x) ?rh w1 = (f, w2)" by (cases "fetch e (Some x) ?rh w1")
    then have "requests w2 = requests w1 @ [Fetch_url x ?rh]"
      using fetch_requests[of e x ?rh w1] by simp
    with assms r Some f show ?thesis
      by (cases f) (simp_all add: stream_file_def Let_def)
  qed
qed

lemma download_expired_missing:
  "download_isExpired now None = Some True \<and> download_isExpired now (Some []) = Some True"
  by (simp add: download_isExpired_def)

lemma download_expired_past:
  "str_includes u ''ex='' \<Longrightarrow> search_get u ''ex'' = Some (Some h) \<Longrightarrow> parseInt h 16 = Some t
     \<Longrightarrow> t * 1000 < now \<Longrightarrow> download_isExpired now (Some u) = Some True"
  by (cases "h = []") (auto simp: download_isExpired_def js_eval)

lemma download_not_expired_without_ex:
  "u \<noteq> [] \<Longrightarrow> \<not> str_includes u ''ex='' \<Longrightarrow> download_isExpired now (Some u) = Some False"
  by (simp add: download_isExpired_def)

lemma download_refresh_first:
  "\<exists>rest. requests (snd (download_refresh e c url w)) = requests w @ Refresh_urls [url] # rest"
proof -
  obtain r w1 where r: "refreshDiscordUrls e [url] w = (r, w1)"
    by (cases "refreshDiscordUrls e [url] w")
  then have w1: "requests w1 = requests w @ [Refresh_urls [url]]"
    using refresh_requests[of e url w] by simp
  obtain l w2 where l: "getDiscordCDNUrl e (c_message_id c) w1 = (l, w2)"
    by (cases "getDiscordCDNUrl e (c_message_id c) w1")
  then have w2: "requests w2 = requests w1 @ [Get_message (c_message_id c)]"
    using lookup_requests[of e "c_message_id c" w1] by simp
  show ?thesis
    using r w1 l w2
    by (cases r; cases l) (auto simp: download_refresh_def split: option.splits)
qed

lemma download_chunk_refreshes:
  assumes "find (\<lambda>ch. Some (c_idx ch) = parseInt s 10) cs = Some c"
    and "download_isExpired (clock e (requests w)) (c_url c) = Some True"
  shows "\<exists>rest. requests (snd (download_chunk e cs s w)) = requests w @ Refresh_urls [c_url c] # rest"
proof -
  obtain u w1 where r: "download_refresh e c (c_url c) w = (u, w1)"
    by (cases "download_refresh e c (c_url c) w")
  obtain rest where w1: "requests w1 = requests w @ Refresh_urls [c_url c] # rest"
    using download_refresh_first[of e c "c_url c" w] r by auto
  obtain f w2 where f: "fetch e u None w1 = (f, w2)" by (cases "fetch e u None w1")
  obtain rest2 where "requests w2 = requests w1 @ rest2"
    using fetch_grows[of e u None w1] f by auto
  with assms r w1 f show ?thesis
    by (cases f) (simp_all add: download_chunk_def)
qed

lemma download_chunk_fetches:
  assumes "find (\<lambda>ch. Some (c_idx ch) = parseInt s 10) cs = Some c"
    and "download_isExpired (clock e (requests w)) (c_url c) = Some False"
    and "c_url c = Some u"
  shows "requests (snd (download_chunk e cs s w)) = requests w @ [Fetch_url u None]"
proof -
  obtain f w2 where f: "fetch e (Some u) None w = (f, w2)" by (cases "fetch e (Some u) None w")
  then have "requests w2 = requests w @ [Fetch_url u None]"
    using fetch_requests[of e u None w] by simp
  with assms f show ?thesis
    by (cases f) (simp_all add: download_chunk_def)
qed

lemma fetch_attempts_step:
  assumes rec: "\<And>url w'. \<exists>rest. requests (snd (fetch_attempts e c (Suc a) url w')) = requests w' @ rest"
  shows "\<exists>rest. requests (snd (fetch_attempts e c a url w)) = requests w @ rest"
proof (cases "a < MAX_ATTEMPTS")
  case False
  then show ?thesis by (simp add: fetch_attempts.simps[of e c a url w])
next
  case lt: True
  show ?thesis
  proof (cases "download_isExpired (clock e (requests w)) url")
    case None
    with lt show ?thesis by (simp add: fetch_attempts.simps[of e c a url w])
  next
    case (Some expired)
    define step where "step = (if expired \<or> (Suc a > 1 \<and> c_message_id c \<noteq> [])
                  then download_refresh e c url w else (url, w))"
    obtain url1 w1 where s: "step = (url1, w1)" by (cases step)
    have g1: "\<exists>rest. requests w1 = requests w @ rest"
      using s download_refresh_first[of e c url w] unfolding step_def
      by (auto split: if_splits)
    obtain f w2 where f: "fetch e url1 None w1 = (f, w2)" by (cases "fetch e url1 None w1")
    have g2: "\<exists>rest. requests w2 = requests w1 @ rest"
      using fetch_grows[of e url1 None w1] f by simp
    have g12: "\<exists>rest. requests w2 = requests w @ rest" using g1 g2 by auto
    have g3: "\<exists>rest. requests (snd (fetch_attempts e c (Suc a) url1 w2)) = requests w @ rest"
      using rec[of url1 w2] g12 by auto
    have unf: "fetch_attempts e c a url w =
       (if aborted e (Attempt_fetch (c_idx c) (Suc a)) then (Inl ''Client aborted'', w1)
        else (case f of
                Fetch_response st b \<Rightarrow>
                  if ok st then (Inr b, w2)
                  else if (st = 403 \<or> st = 410) \<and> Suc a < MAX_ATTEMPTS
                  then fetch_attempts e c (Suc a) url1 w2
                  else if aborted e (Attempt_caught (c_idx c) (Suc a))
                  then (Inl (''Fetch failed: '' @ dec st), w2)
                  else if Suc a < MAX_ATTEMPTS
                  then fetch_attempts e c (Suc a) url1 w2
                  else (Inl (''Fetch failed: '' @ dec st), w2)
              | Fetch_throws msg \<Rightarrow>
                  if aborted e (Attempt_caught (c_idx c) (Suc a)) \<or> msg = ''Client aborted''
                  then (Inl msg, w2)
                  else if Suc a < MAX_ATTEMPTS
                  then fetch_attempts e c (Suc a) url1 w2
                  else (Inl msg, w2)))"
      using lt Some s f unfolding step_def
      by (subst fetch_attempts.simps) simp
    show ?thesis
      unfolding unf using g1 g12 g3
      by (cases f) (auto split: if_splits)
  qed
qed

lemma fetch_attempts_grows:
  "\<exists>rest. requests (snd (fetch_attempts e c a url w)) = requests w @ rest"
proof -
  have two: "\<And>a url w. MAX_ATTEMPTS \<le> a \<Longrightarrow>
      \<exists>rest. requests (snd (fetch_attempts e c a url w)) = requests w @ rest"
    by (subst fetch_attempts.simps) simp
  have one: "\<And>url w. \<exists>rest. requests (snd (fetch_attempts e c (Suc 0) url w)) = requests w @ rest"
    by (rule fetch_attempts_step) (simp add: two MAX_ATTEMPTS_def)
  have zero: "\<And>url w. \<exists>rest. requests (snd (fetch_attempts e c 0 url w)) = requests w @ rest"
    by (rule fetch_attempts_step) (rule one)
  show ?thesis
  proof (cases a)
    case 0
    then show ?thesis using zero by simp
  next
    case (Suc a')
    then show ?thesis
      using one two[of a url w] by (cases a') (simp_all add: MAX_ATTEMPTS_def)
  qed
qed

lemma fetchChunkData_refreshes:
  assumes "\<not> aborted e (Fetch_entry (c_idx c))"
    and "download_isExpired (clock e (requests w)) (c_url c) = Some True"
  shows "\<exists>rest. requests (snd (fetchChunkData e c w)) = requests w @ Refresh_urls [c_url c] # rest"
proof -
  obtain url1 w1 where r: "download_refresh e c (c_url c) w = (url1, w1)"
    by (cases "download_refresh e c (c_url c) w")
  obtain rest where w1: "requests w1 = requests w @ Refresh_urls [c_url c] # rest"
    using download_refresh_first[of e c "c_url c" w] r by auto
  obtain f w2 where f: "fetch e url1 None w1 = (f, w2)" by (cases "fetch e url1 None w1")
  obtain rest2 where w2: "requests w2 = requests w1 @ rest2"
    using fetch_grows[of e url1 None w1] f by auto
  obtain rest3 where w3: "requests (snd (fetch_attempts e c (Suc 0) url1 w2)) = requests w2 @ rest3"
    using fetch_attempts_grows by blast
  show ?thesis
    using assms r w1 f w2 w3
    by (cases f)
       (auto simp: fetchChunkData_def fetch_attempts.simps[of e c 0 "c_url c" w] MAX_ATTEMPTS_def
             split: if_splits)
qed

lemma fetchChunkData_fetches:
  assumes "\<not> aborted e (Fetch_entry (c_idx c))"
    and "\<not> aborted e (Attempt_fetch (c_idx c) 1)"
    and "download_isExpired (clock e (requests w)) (c_url c) = Some False"
    and "c_url c = Some u"
  shows "\<exists>rest. requests (snd (fetchChunkData e c w)) = requests w @ Fetch_url u None # rest"
proof -
  obtain f w2 where f: "fetch e (Some u) None w = (f, w2)" by (cases "fetch e (Some u) None w")
  then have w2: "requests w2 = requests w @ [Fetch_url u None]"
    using fetch_requests[of e u None w] by simp
  obtain rest3 where w3: "requests (snd (fetch_attempts e c (Suc 0) (Some u) w2)) = requests w2 @ rest3"
    using fetch_attempts_grows by blast
  show ?thesis
    using assms f w2 w3
    by (cases f)
       (auto simp: fetchChunkData_def fetch_attempts.simps[of e c 0 "Some u" w] MAX_ATTEMPTS_def
             split: if_splits)
qed

lemmas expiry_eval = expiry_world_def sample_world_def hello_chunk_def hello_file_def cdn_up_def

lemmas stream_eval = stream_file_def stream_refresh_def stream_bulk_refresh_def
  stream_backup_lookup_def parse_range_def isExpired_def

text \<open>
  C9, as amended. At the range-stream site a stored URL counts as expired when it is
  missing, when it has no \<open>ex\<close> parameter, or when its \<open>ex\<close>, read as a hexadecimal
  number of seconds, is less than 300 seconds ahead of the clock (so also when it is in
  the past); for a target chunk
  with a message id and an expired URL, the first request the handler sends is a refresh
  attempt, before the fetch. At the per-chunk proxy and in \<open>fetchChunkData\<close> of the
  full-file stream a stored URL counts as expired when it is missing or empty, or when it
  contains \<open>ex=\<close> and its \<open>ex\<close>, read as a hexadecimal number of seconds, is in the
  past, and then the first request sent is the bulk refresh of the stored URL; a stored
  URL that does not contain \<open>ex=\<close> does not count as expired there, and the first
  request sent is the fetch of the URL as stored.
\<close>

theorem url_expiry_policy:
  "isExpired now None \<and>
   (search_get u ''ex'' = Some None \<longrightarrow> isExpired now (Some u)) \<and>
   (search_get u ''ex'' = Some (Some h) \<and> parseInt h 16 = Some t \<and> t < now div 1000 + 300
      \<longrightarrow> isExpired now (Some u)) \<and>
   (get_file (database w) fid = Some row \<and>
    parse_range (f_size row) hdr = (Some start, rangeEnd) \<and>
    find_chunk start 0 (getChunks (database w) fid) = Some (c, off) \<and>
    isExpired (clock e (requests w)) (c_url c) \<and> c_message_id c \<noteq> []
      \<longrightarrow> (\<exists>rq rest. requests (snd (stream_file e fid hdr w)) = requests w @ rq # rest \<and>
                     is_refresh rq)) \<and>
   download_isExpired now None = Some True \<and>
   download_isExpired now (Some []) = Some True \<and>
   (str_includes u ''ex='' \<and> search_get u ''ex'' = Some (Some h) \<and> parseInt h 16 = Some t \<and>
    t * 1000 < now
      \<longrightarrow> download_isExpired now (Some u) = Some True) \<and>
   (u \<noteq> [] \<and> \<not> str_includes u ''ex='' \<longrightarrow> download_isExpired now (Some u) = Some False) \<and>
   (find (\<lambda>ch. Some (c_idx ch) = parseInt s 10) cs = Some c \<and>
    download_isExpired (clock e (requests w)) (c_url c) = Some True
      \<longrightarrow> (\<exists>rest. requests (snd (download_chunk e cs s w))
                    = requests w @ Refresh_urls [c_url c] # rest)) \<and>
   (find (\<lambda>ch. Some (c_idx ch) = parseInt s 10) cs = Some c \<and>
    download_isExpired (clock e (requests w)) (c_url c) = Some False \<and> c_url c = Some u
      \<longrightarrow> requests (snd (download_chunk e cs s w)) = requests w @ [Fetch_url u None]) \<and>
   (\<not> aborted e (Fetch_entry (c_idx c)) \<and>
    download_isExpired (clock e (requests w)) (c_url c) = Some True
      \<longrightarrow> (\<exists>rest. requests (snd (fetchChunkData e c w))
                    = requests w @ Refresh_urls [c_url c] # rest)) \<and>
   (\<not> aborted e (Fetch_entry (c_idx c)) \<and> \<not> aborted e (Attempt_fetch (c_idx c) 1) \<and>
    download_isExpired (clock e (requests w)) (c_url c) = Some False \<and> c_url c = Some u
      \<longrightarrow> (\<exists>rest. requests (snd (fetchChunkData e c w)) = requests w @ Fetch_url u None # rest))"
proof -
  have stream_site:
    "get_file (database w) fid = Some row \<Longrightarrow>
     parse_range (f_size row) hdr = (Some start, rangeEnd) \<Longrightarrow>
     find_chunk start 0 (getChunks (database w) fid) = Some (c, off) \<Longrightarrow>
     isExpired (clock e (requests w)) (c_url c) \<Longrightarrow> c_message_id c \<noteq> [] \<Longrightarrow>
     \<exists>rq rest. requests (snd (stream_file e fid hdr w)) = requests w @ rq # rest \<and> is_refresh rq"
  proof -
    assume a: "get_file (database w) fid = Some row"
      "parse_range (f_size row) hdr = (Some start, rangeEnd)"
      "find_chunk start 0 (getChunks (database w) fid) = Some (c, off)"
      "isExpired (clock e (requests w)) (c_url c)" "c_message_id c \<noteq> []"
    from stream_refresh_first[OF a(4,5)] obtain rq rest where
      "requests (snd (stream_refresh e c w)) = requests w @ rq # rest" "is_refresh rq" by blast
    moreover from stream_file_requests[OF a(1,2,3), of e] obtain rest2 where
      "requests (snd (stream_file e fid hdr w)) = requests (snd (stream_refresh e c w)) @ rest2"
      by blast
    ultimately show ?thesis by auto
  qed
  have h0: "isExpired now None"
    by (simp add: isExpired_def)
  have h1: "search_get u ''ex'' = Some None \<longrightarrow> isExpired now (Some u)"
    using isExpired_no_ex by blast
  have h2: "search_get u ''ex'' = Some (Some h) \<and> parseInt h 16 = Some t \<and> t < now div 1000 + 300
      \<longrightarrow> isExpired now (Some u)"
    using isExpired_soon by blast
  have h3: "get_file (database w) fid = Some row \<and>
    parse_range (f_size row) hdr = (Some start, rangeEnd) \<and>
    find_chunk start 0 (getChunks (database w) fid) = Some (c, off) \<and>
    isExpired (clock e (requests w)) (c_url c) \<and> c_message_id c \<noteq> []
      \<longrightarrow> (\<exists>rq rest. requests (snd (stream_file e fid hdr w)) = requests w @ rq # rest \<and>
                     is_refresh rq)"
    using stream_site by blast
  have h4: "download_isExpired now None = Some True" and h5: "download_isExpired now (Some []) = Some True"
    using download_expired_missing by blast+
  have h6: "str_includes u ''ex='' \<and> search_get u ''ex'' = Some (Some h) \<and> parseInt h 16 = Some t \<and>
    t * 1000 < now \<longrightarrow> download_isExpired now (Some u) = Some True"
    using download_expired_past by blast
  have h7: "u \<noteq> [] \<and> \<not> str_includes u ''ex='' \<longrightarrow> download_isExpired now (Some u) = Some False"
    using download_not_expired_without_ex by blast
  have h8: "find (\<lambda>ch. Some (c_idx ch) = parseInt s 10) cs = Some c \<and>
    download_isExpired (clock e (requests w)) (c_url c) = Some True
      \<longrightarrow> (\<exists>rest. requests (snd (download_chunk e cs s w))
                    = requests w @ Refresh_urls [c_url c] # rest)"
    using download_chunk_refreshes by blast
  have h9: "find (\<lambda>ch. Some (c_idx ch) = parseInt s 10) cs = Some c \<and>
    download_isExpired (clock e (requests w)) (c_url c) = Some False \<and> c_url c = Some u
      \<longrightarrow> requests (snd (download_chunk e cs s w)) = requests w @ [Fetch_url u None]"
    using download_chunk_fetches by blast
  have h10: "\<not> aborted e (Fetch_entry (c_idx c)) \<and>
    download_isExpired (clock e (requests w)) (c_url c) = Some True
      \<longrightarrow> (\<exists>rest. requests (snd (fetchChunkData e c w))
                    = requests w @ Refresh_urls [c_url c] # rest)"
    using fetchChunkData_refreshes by blast
  have h11: "\<not> aborted e (Fetch_entry (c_idx c)) \<and> \<not> aborted e (Attempt_fetch (c_idx c) 1) \<and>
    download_isExpired (clock e (requests w)) (c_url c) = Some False \<and> c_url c = Some u
      \<longrightarrow> (\<exists>rest. requests (snd (fetchChunkData e c w)) = requests w @ Fetch_url u None # rest)"
    using fetchChunkData_fetches by blast
  show ?thesis
    by (intro conjI h0 h1 h2 h3 h4 h5 h6 h7 h8 h9 h10 h11)
qed

text \<open>
  The witness, at the clock \<open>0x6553f100\<close>: a URL without \<open>ex\<close> and a URL whose \<open>ex\<close> is
  240 seconds ahead are expired for the stream route, which sends the bulk refresh and
  the message lookup before its fetch; a URL whose \<open>ex\<close> is 256 seconds in the past is
  expired for the download route, and both of its paths send the bulk refresh before
  the fetch; the URL without \<open>ex\<close> is not expired for the download route, and both of
  its paths send the fetch of the stored URL and nothing before it.
\<close>

theorem url_expiry_policy_witness:
  "search_get ''https://cdn.example/m0.bin'' ''ex'' = Some None \<and>
   isExpired 1700000000000 (Some ''https://cdn.example/m0.bin'') \<and>
   search_get ''https://cdn.example/m0.bin?ex=6553f1f0'' ''ex'' = Some (Some ''6553f1f0'') \<and>
   parseInt ''6553f1f0'' 16 = Some 1700000240 \<and>
   isExpired 1700000000000 (Some ''https://cdn.example/m0.bin?ex=6553f1f0'') \<and>
   get_file (database (expiry_world ''https://cdn.example/m0.bin?ex=6553f1f0'')) ''h'' = Some hello_file \<and>
   parse_range (f_size hello_file) None = (Some 0, Some 11) \<and>
   find_chunk 0 0 (getChunks (database (expiry_world ''https://cdn.example/m0.bin?ex=6553f1f0'')) ''h'')
     = Some (hello_chunk 1 0 ''m0'' 5 ''https://cdn.example/m0.bin?ex=6553f1f0'', 0) \<and>
   requests (snd (stream_file cdn_up ''h'' None
                    (expiry_world ''https://cdn.example/m0.bin?ex=6553f1f0'')))
     = [Refresh_urls [Some ''https://cdn.example/m0.bin?ex=6553f1f0''], Get_message ''m0'',
        Fetch_url ''https://cdn.example/m0.bin?ex=6553f1f0'' (Some ''bytes=0-4'')] \<and>
   str_includes ''https://cdn.example/m0.bin?ex=6553f000'' ''ex='' \<and>
   parseInt ''6553f000'' 16 = Some 1699999744 \<and>
   download_isExpired 1700000000000 (Some ''https://cdn.example/m0.bin?ex=6553f000'') = Some True \<and>
   find (\<lambda>ch. Some (c_idx ch) = parseInt ''0'' 10)
        (getChunks (database (expiry_world ''https://cdn.example/m0.bin?ex=6553f000'')) ''h'')
     = Some (hello_chunk 1 0 ''m0'' 5 ''https://cdn.example/m0.bin?ex=6553f000'') \<and>
   requests (snd (download_get cdn_up ''h'' (Some ''0'') None None
                    (expiry_world ''https://cdn.example/m0.bin?ex=6553f000'')))
     = [Refresh_urls [Some ''https://cdn.example/m0.bin?ex=6553f000''],
        Fetch_url ''https://cdn.example/m0.bin?ex=6553f000'' None] \<and>
   requests (snd (download_get cdn_up ''h'' None None None
                    (expiry_world ''https://cdn.example/m0.bin?ex=6553f000'')))
     = [Refresh_urls [Some ''https://cdn.example/m0.bin?ex=6553f000''],
        Fetch_url ''https://cdn.example/m0.bin?ex=6553f000'' None] \<and>
   \<not> str_includes ''https://cdn.example/m0.bin'' ''ex='' \<and>
   download_isExpired 1700000000000 (Some ''https://cdn.example/m0.bin'') = Some False \<and>
   requests (snd (download_chunk cdn_up
                    (getChunks (database (expiry_world ''https://cdn.example/m0.bin'')) ''h'') ''0''
                    (expiry_world ''https://cdn.example/m0.bin'')))
     = [Fetch_url ''https://cdn.example/m0.bin'' None] \<and>
   requests (snd (fetchChunkData cdn_up (hello_chunk 1 0 ''m0'' 5 ''https://cdn.example/m0.bin'')
                    (expiry_world ''https://cdn.example/m0.bin'')))
     = [Fetch_url ''https://cdn.example/m0.bin'' None]"
proof -
  have stream_run:
    "requests (snd (stream_file cdn_up ''h'' None
                    (expiry_world ''https://cdn.example/m0.bin?ex=6553f1f0'')))
     = [Refresh_urls [Some ''https://cdn.example/m0.bin?ex=6553f1f0''], Get_message ''m0'',
        Fetch_url ''https://cdn.example/m0.bin?ex=6553f1f0'' (Some ''bytes=0-4'')]"
    by (simp add: stream_eval js_eval cdn_eval expiry_eval Let_def)
  have chunk_run:
    "requests (snd (download_get cdn_up ''h'' (Some ''0'') None None
                    (expiry_world ''https://cdn.example/m0.bin?ex=6553f000'')))
     = [Refresh_urls [Some ''https://cdn.example/m0.bin?ex=6553f000''],
        Fetch_url ''https://cdn.example/m0.bin?ex=6553f000'' None]"
    by (simp add: download_eval js_eval cdn_eval expiry_eval)
  have full_run:
    "requests (snd (download_get cdn_up ''h'' None None None
                    (expiry_world ''https://cdn.example/m0.bin?ex=6553f000'')))
     = [Refresh_urls [Some ''https://cdn.example/m0.bin?ex=6553f000''],
        Fetch_url ''https://cdn.example/m0.bin?ex=6553f000'' None]"
    by (simp add: download_eval js_eval cdn_eval expiry_eval)
  have no_ex: "search_get ''https://cdn.example/m0.bin'' ''ex'' = Some None"
    and not_in: "\<not> str_includes ''https://cdn.example/m0.bin'' ''ex=''"
    by (simp_all add: js_eval)
  have soon: "search_get ''https://cdn.example/m0.bin?ex=6553f1f0'' ''ex'' = Some (Some ''6553f1f0'')"
    "parseInt ''6553f1f0'' 16 = Some 1700000240"
    by (simp_all add: js_eval)
  have past: "str_includes ''https://cdn.example/m0.bin?ex=6553f000'' ''ex=''"
    "search_get ''https://cdn.example/m0.bin?ex=6553f000'' ''ex'' = Some (Some ''6553f000'')"
    "parseInt ''6553f000'' 16 = Some 1699999744"
    by (simp_all add: js_eval)
  have target:
    "get_file (database (expiry_world ''https://cdn.example/m0.bin?ex=6553f1f0'')) ''h'' = Some hello_file"
    "parse_range (f_size hello_file) None = (Some 0, Some 11)"
    "find_chunk 0 0 (getChunks (database (expiry_world ''https://cdn.example/m0.bin?ex=6553f1f0'')) ''h'')
       = Some (hello_chunk 1 0 ''m0'' 5 ''https://cdn.example/m0.bin?ex=6553f1f0'', 0)"
    "c_message_id (hello_chunk 1 0 ''m0'' 5 ''https://cdn.example/m0.bin?ex=6553f1f0'') \<noteq> []"
    "c_url (hello_chunk 1 0 ''m0'' 5 ''https://cdn.example/m0.bin?ex=6553f1f0'')
       = Some ''https://cdn.example/m0.bin?ex=6553f1f0''"
    "clock cdn_up (requests (expiry_world ''https://cdn.example/m0.bin?ex=6553f1f0'')) = 1700000000000"
    by (simp_all add: stream_eval cdn_eval expiry_eval)
  have found:
    "find (\<lambda>ch. Some (c_idx ch) = parseInt ''0'' 10)
        (getChunks (database (expiry_world ''https://cdn.example/m0.bin?ex=6553f000'')) ''h'')
     = Some (hello_chunk 1 0 ''m0'' 5 ''https://cdn.example/m0.bin?ex=6553f000'')"
    "c_url (hello_chunk 1 0 ''m0'' 5 ''https://cdn.example/m0.bin?ex=6553f000'')
       = Some ''https://cdn.example/m0.bin?ex=6553f000''"
    "clock cdn_up (requests (expiry_world ''https://cdn.example/m0.bin?ex=6553f000'')) = 1700000000000"
    "\<not> aborted cdn_up (Fetch_entry (c_idx (hello_chunk 1 0 ''m0'' 5 ''https://cdn.example/m0.bin?ex=6553f000'')))"
    by (simp_all add: js_eval cdn_eval expiry_eval)
  have stored:
    "find (\<lambda>ch. Some (c_idx ch) = parseInt ''0'' 10)
        (getChunks (database (expiry_world ''https://cdn.example/m0.bin'')) ''h'')
     = Some (hello_chunk 1 0 ''m0'' 5 ''https://cdn.example/m0.bin'')"
    "c_url (hello_chunk 1 0 ''m0'' 5 ''https://cdn.example/m0.bin'')
       = Some ''https://cdn.example/m0.bin''"
    "clock cdn_up (requests (expiry_world ''https://cdn.example/m0.bin'')) = 1700000000000"
    "\<not> aborted cdn_up (Fetch_entry (c_idx (hello_chunk 1 0 ''m0'' 5 ''https://cdn.example/m0.bin'')))"
    "\<not> aborted cdn_up (Attempt_fetch (c_idx (hello_chunk 1 0 ''m0'' 5 ''https://cdn.example/m0.bin'')) 1)"
    by (simp_all add: js_eval cdn_eval expiry_eval)
  have stored_chunk_run:
    "requests (snd (download_chunk cdn_up
                    (getChunks (database (expiry_world ''https://cdn.example/m0.bin'')) ''h'') ''0''
                    (expiry_world ''https://cdn.example/m0.bin'')))
     = [Fetch_url ''https://cdn.example/m0.bin'' None]"
    by (simp add: download_eval js_eval cdn_eval expiry_eval)
  have stored_full_run:
    "requests (snd (fetchChunkData cdn_up (hello_chunk 1 0 ''m0'' 5 ''https://cdn.example/m0.bin'')
                    (expiry_world ''https://cdn.example/m0.bin'')))
     = [Fetch_url ''https://cdn.example/m0.bin'' None]"
    by (simp add: download_eval js_eval cdn_eval expiry_eval)
  note a = url_expiry_policy [where u = "''https://cdn.example/m0.bin''" and now = 1700000000000
        and e = cdn_up and w = "expiry_world ''https://cdn.example/m0.bin''" and s = "''0''"
        and cs = "getChunks (database (expiry_world ''https://cdn.example/m0.bin'')) ''h''"
        and c = "hello_chunk 1 0 ''m0'' 5 ''https://cdn.example/m0.bin''"]
  note b = url_expiry_policy [where u = "''https://cdn.example/m0.bin?ex=6553f1f0''"
        and now = 1700000000000 and h = "''6553f1f0''" and t = 1700000240
        and e = cdn_up and w = "expiry_world ''https://cdn.example/m0.bin?ex=6553f1f0''"
        and fid = "''h''" and row = hello_file and hdr = None and start = 0 and rangeEnd = "Some 11"
        and c = "hello_chunk 1 0 ''m0'' 5 ''https://cdn.example/m0.bin?ex=6553f1f0''" and off = 0]
  note c = url_expiry_policy [where u = "''https://cdn.example/m0.bin?ex=6553f000''"
        and now = 1700000000000 and h = "''6553f000''" and t = 1699999744
        and e = cdn_up and w = "expiry_world ''https://cdn.example/m0.bin?ex=6553f000''" and s = "''0''"
        and cs = "getChunks (database (expiry_world ''https://cdn.example/m0.bin?ex=6553f000'')) ''h''"
        and c = "hello_chunk 1 0 ''m0'' 5 ''https://cdn.example/m0.bin?ex=6553f000''"]
  show ?thesis
    using a b c no_ex not_in soon past stream_run chunk_run full_run target found stored
      stored_chunk_run stored_full_run
    by simp
qed

text \<open>
  The claim as written fails at the two download sites for a URL that lacks the \<open>ex\<close>
  parameter: the per-chunk proxy and the full-file stream fetch it as stored, with no
  refresh attempt before the fetch.
\<close>

theorem url_expiry_counterexample:
  "search_get ''https://cdn.example/m0.bin'' ''ex'' = Some None \<and>
   requests (snd (download_get cdn_up ''h'' (Some ''0'') None None
                    (expiry_world ''https://cdn.example/m0.bin'')))
     = [Fetch_url ''https://cdn.example/m0.bin'' None] \<and>
   requests (snd (download_get cdn_up ''h'' None None None
                    (expiry_world ''https://cdn.example/m0.bin'')))
     = [Fetch_url ''https://cdn.example/m0.bin'' None]"
  by (simp add: download_eval js_eval cdn_eval expiry_eval)

end
